theory Spec2Isabelle
  imports Complex_Main
begin

section \<open>Numbers and errors\<close>

text \<open>
  The sizing tool computes with Python floats. They are modelled as real numbers: a
  product, sum or quotient is the exact one, so rounding, overflow, infinities and NaN
  are outside the model. Every expression keeps the shape and the operand order it has in
  the source, and every decimal constant is the one the source writes.

  A Python float division by zero raises \<^verbatim>\<open>ZeroDivisionError\<close>. It is the only
  exception the modelled functions can raise on float arguments, and it is a value of the
  model: a function that divides returns \<open>Inl ZeroDivisionError\<close> at a zero divisor and
  \<open>Inr\<close> of its result otherwise. The divisions are checked in the order in which the
  source performs them.

  The climb segment takes a square root with \<^verbatim>\<open>np.sqrt\<close>, whose result is a numpy
  scalar, and so is every value computed from it. On numpy scalars a division by zero and
  the square root of a negative number raise nothing: they give \<^verbatim>\<open>inf\<close> or
  \<^verbatim>\<open>nan\<close> under a warning, and the source goes on computing with that value. Such a
  scalar is a value of the type \<open>npfloat\<close> below, and the climb is modelled with the
  arithmetic of that type, so that it returns wherever the source returns.

  The loop of \<^verbatim>\<open>simulate_mission\<close> is modelled on real numbers. When a climb returns
  a result that is not a real number, the loop of the model stops with
  \<open>Inl NotFinite\<close>; in the source the weight is \<^verbatim>\<open>nan\<close> or infinite from there on.
  A segment that follows a climb receives a numpy scalar as its weight, so its divisions
  by zero give \<^verbatim>\<open>inf\<close> or \<^verbatim>\<open>nan\<close> as well; the model of the loop returns
  \<open>Inl ZeroDivisionError\<close> in both cases.
\<close>

datatype error = ZeroDivisionError | NotFinite

subsection \<open>numpy scalars\<close>

text \<open>
  A numpy \<^verbatim>\<open>float64\<close> is a real number, an infinity or \<^verbatim>\<open>nan\<close>. The operations
  follow IEEE 754 as numpy applies it, with exact results on real numbers. The sign of a
  zero is not modelled: every zero is taken as \<^verbatim>\<open>+0.0\<close>, so a number that is not zero
  divided by zero gives the infinity of the sign of the number.
\<close>

datatype npfloat = Fin real | PInf | NInf | NaN

fun np_add :: "npfloat \<Rightarrow> npfloat \<Rightarrow> npfloat" where
  "np_add NaN y = NaN"
| "np_add x NaN = NaN"
| "np_add (Fin a) (Fin b) = Fin (a + b)"
| "np_add (Fin a) PInf = PInf"
| "np_add (Fin a) NInf = NInf"
| "np_add PInf (Fin b) = PInf"
| "np_add NInf (Fin b) = NInf"
| "np_add PInf PInf = PInf"
| "np_add NInf NInf = NInf"
| "np_add PInf NInf = NaN"
| "np_add NInf PInf = NaN"

fun np_mult :: "npfloat \<Rightarrow> npfloat \<Rightarrow> npfloat" where
  "np_mult NaN y = NaN"
| "np_mult x NaN = NaN"
| "np_mult (Fin a) (Fin b) = Fin (a * b)"
| "np_mult (Fin a) PInf = (if a = 0 then NaN else if 0 < a then PInf else NInf)"
| "np_mult (Fin a) NInf = (if a = 0 then NaN else if 0 < a then NInf else PInf)"
| "np_mult PInf (Fin b) = (if b = 0 then NaN else if 0 < b then PInf else NInf)"
| "np_mult NInf (Fin b) = (if b = 0 then NaN else if 0 < b then NInf else PInf)"
| "np_mult PInf PInf = PInf"
| "np_mult NInf NInf = PInf"
| "np_mult PInf NInf = NInf"
| "np_mult NInf PInf = NInf"

fun np_div :: "npfloat \<Rightarrow> npfloat \<Rightarrow> npfloat" where
  "np_div NaN y = NaN"
| "np_div x NaN = NaN"
| "np_div (Fin a) (Fin b) =
     (if b \<noteq> 0 then Fin (a / b)
      else if a = 0 then NaN else if 0 < a then PInf else NInf)"
| "np_div (Fin a) PInf = Fin 0"
| "np_div (Fin a) NInf = Fin 0"
| "np_div PInf (Fin b) = (if 0 \<le> b then PInf else NInf)"
| "np_div NInf (Fin b) = (if 0 \<le> b then NInf else PInf)"
| "np_div PInf PInf = NaN"
| "np_div NInf NInf = NaN"
| "np_div PInf NInf = NaN"
| "np_div NInf PInf = NaN"

text \<open>\<^verbatim>\<open>x**2\<close> on a numpy scalar.\<close>

definition np_square :: "npfloat \<Rightarrow> npfloat" where
  "np_square x = np_mult x x"

text \<open>\<^verbatim>\<open>np.sqrt\<close>: the square root of a negative number is \<^verbatim>\<open>nan\<close>.\<close>

fun np_sqrt :: "npfloat \<Rightarrow> npfloat" where
  "np_sqrt (Fin a) = (if a < 0 then NaN else Fin (sqrt a))"
| "np_sqrt PInf = PInf"
| "np_sqrt NInf = NaN"
| "np_sqrt NaN = NaN"

text \<open>\<^verbatim>\<open>x > y\<close>: a comparison with \<^verbatim>\<open>nan\<close> is false.\<close>

fun np_greater :: "npfloat \<Rightarrow> npfloat \<Rightarrow> bool" where
  "np_greater NaN y = False"
| "np_greater x NaN = False"
| "np_greater (Fin a) (Fin b) = (b < a)"
| "np_greater PInf PInf = False"
| "np_greater PInf y = True"
| "np_greater x PInf = False"
| "np_greater NInf y = False"
| "np_greater (Fin a) NInf = True"

section \<open>powertrain.py\<close>

subsection \<open>TechnologySpec\<close>

record TechnologySpec =
  GT_specific_power_kW_kg :: real
  GT_efficiency :: real
  GT_BSFC_kg_kWh :: real
  EM_specific_power_kW_kg :: real
  EM_efficiency :: real
  GEN_specific_power_kW_kg :: real
  GEN_efficiency :: real
  battery_specific_energy_Wh_kg :: real
  battery_specific_power_kW_kg :: real
  battery_SOC_margin :: real
  battery_DOD :: real
  prop_efficiency :: real

subsection \<open>PowertrainBase and its four subclasses\<close>

text \<open>
  The class of a powertrain object is the field \<open>arch\<close>; the attributes are those that
  \<^verbatim>\<open>PowertrainBase.__init__\<close> sets (the display name is fixed by the class and is left
  out). A method that assigns attributes takes the object and returns the updated one.
\<close>

datatype architecture = Conventional | ParallelHybrid | SerialHybrid | FullyElectric

record Powertrain =
  arch :: architecture
  tech :: TechnologySpec
  m_GT_lb :: real
  m_EM_lb :: real
  m_GEN_lb :: real
  m_battery_lb :: real
  m_fuel_lb :: real
  P_GT_kW :: real
  P_EM_kW :: real
  P_GEN_kW :: real

text \<open>\<^verbatim>\<open>PowertrainBase.__init__\<close>: every mass and power starts at zero.\<close>

definition PowertrainBase_init :: "architecture \<Rightarrow> TechnologySpec \<Rightarrow> Powertrain" where
  "PowertrainBase_init a t =
     \<lparr>arch = a, tech = t, m_GT_lb = 0, m_EM_lb = 0, m_GEN_lb = 0, m_battery_lb = 0,
      m_fuel_lb = 0, P_GT_kW = 0, P_EM_kW = 0, P_GEN_kW = 0\<rparr>"

text \<open>
  The dictionary that \<^verbatim>\<open>get_power_split\<close> returns has four fixed keys. Its keys
  \<^verbatim>\<open>'P_GT_kW'\<close> and \<^verbatim>\<open>'P_EM_kW'\<close> are the fields \<open>split_P_GT_kW\<close> and
  \<open>split_P_EM_kW\<close>, the attributes of the powertrain object having taken the plain names.
\<close>

record power_split =
  split_P_GT_kW :: real
  split_P_EM_kW :: real
  fuel_rate_kg_s :: real
  battery_power_W :: real

subsubsection \<open>ConventionalPowertrain\<close>

definition Conventional_size_components :: "Powertrain \<Rightarrow> real \<Rightarrow> real \<Rightarrow> error + Powertrain" where
  "Conventional_size_components self P_shaft_kW Hp =
     (if GT_specific_power_kW_kg (tech self) = 0 then Inl ZeroDivisionError
      else Inr (self\<lparr>P_GT_kW := P_shaft_kW,
                     m_GT_lb := (P_shaft_kW / GT_specific_power_kW_kg (tech self)) * 2.20462,
                     m_EM_lb := 0,
                     m_GEN_lb := 0\<rparr>))"

definition Conventional_get_power_split :: "Powertrain \<Rightarrow> real \<Rightarrow> real \<Rightarrow> error + power_split" where
  "Conventional_get_power_split self P_required_kW Hp =
     (let fuel_rate = (P_required_kW * GT_BSFC_kg_kWh (tech self)) / 3600
      in Inr \<lparr>split_P_GT_kW = P_required_kW, split_P_EM_kW = 0,
              fuel_rate_kg_s = fuel_rate, battery_power_W = 0\<rparr>)"

subsubsection \<open>ParallelHybridPowertrain\<close>

definition Parallel_size_components :: "Powertrain \<Rightarrow> real \<Rightarrow> real \<Rightarrow> error + Powertrain" where
  "Parallel_size_components self P_shaft_kW Hp =
     (let p_EM = P_shaft_kW * Hp;
          p_GT = P_shaft_kW * (1 - Hp)
      in if EM_specific_power_kW_kg (tech self) = 0 then Inl ZeroDivisionError
         else if GT_specific_power_kW_kg (tech self) = 0 then Inl ZeroDivisionError
         else Inr (self\<lparr>P_EM_kW := p_EM,
                        P_GT_kW := p_GT,
                        m_EM_lb := (p_EM / EM_specific_power_kW_kg (tech self)) * 2.20462,
                        m_GT_lb := (p_GT / GT_specific_power_kW_kg (tech self)) * 2.20462,
                        m_GEN_lb := 0\<rparr>))"

definition Parallel_get_power_split :: "Powertrain \<Rightarrow> real \<Rightarrow> real \<Rightarrow> error + power_split" where
  "Parallel_get_power_split self P_required_kW Hp =
     (let p_GT = P_required_kW * (1 - Hp);
          p_EM = P_required_kW * Hp;
          fuel_rate = (p_GT * GT_BSFC_kg_kWh (tech self)) / 3600
      in if EM_efficiency (tech self) = 0 then Inl ZeroDivisionError
         else Inr \<lparr>split_P_GT_kW = p_GT, split_P_EM_kW = p_EM,
                   fuel_rate_kg_s = fuel_rate,
                   battery_power_W = (p_EM * 1000) / EM_efficiency (tech self)\<rparr>)"

subsubsection \<open>SerialHybridPowertrain\<close>

definition Serial_size_components :: "Powertrain \<Rightarrow> real \<Rightarrow> real \<Rightarrow> error + Powertrain" where
  "Serial_size_components self P_shaft_kW Hp =
     (if EM_efficiency (tech self) = 0 then Inl ZeroDivisionError
      else let P_electric_kW = P_shaft_kW / EM_efficiency (tech self);
               p_GEN = P_electric_kW * (1 - Hp)
           in if GEN_efficiency (tech self) = 0 then Inl ZeroDivisionError
              else let p_GT = p_GEN / GEN_efficiency (tech self)
                   in if EM_specific_power_kW_kg (tech self) = 0 then Inl ZeroDivisionError
                      else if GEN_specific_power_kW_kg (tech self) = 0 then Inl ZeroDivisionError
                      else if GT_specific_power_kW_kg (tech self) = 0 then Inl ZeroDivisionError
                      else Inr (self\<lparr>P_EM_kW := P_shaft_kW,
                                     P_GEN_kW := p_GEN,
                                     P_GT_kW := p_GT,
                                     m_EM_lb := (P_shaft_kW / EM_specific_power_kW_kg (tech self)) * 2.20462,
                                     m_GEN_lb := (p_GEN / GEN_specific_power_kW_kg (tech self)) * 2.20462,
                                     m_GT_lb := (p_GT / GT_specific_power_kW_kg (tech self)) * 2.20462\<rparr>))"

definition Serial_get_power_split :: "Powertrain \<Rightarrow> real \<Rightarrow> real \<Rightarrow> error + power_split" where
  "Serial_get_power_split self P_required_kW Hp =
     (let p_EM = P_required_kW
      in if EM_efficiency (tech self) = 0 then Inl ZeroDivisionError
         else let P_electric_kW = p_EM / EM_efficiency (tech self);
                  P_battery_kW = P_electric_kW * Hp;
                  P_generator_kW = P_electric_kW * (1 - Hp)
              in if GEN_efficiency (tech self) = 0 then Inl ZeroDivisionError
                 else let p_GT = P_generator_kW / GEN_efficiency (tech self);
                          fuel_rate = (p_GT * GT_BSFC_kg_kWh (tech self)) / 3600
                      in Inr \<lparr>split_P_GT_kW = p_GT, split_P_EM_kW = p_EM,
                                fuel_rate_kg_s = fuel_rate,
                                battery_power_W = P_battery_kW * 1000\<rparr>)"

subsubsection \<open>FullyElectricPowertrain\<close>

definition Electric_size_components :: "Powertrain \<Rightarrow> real \<Rightarrow> real \<Rightarrow> error + Powertrain" where
  "Electric_size_components self P_shaft_kW Hp =
     (if EM_specific_power_kW_kg (tech self) = 0 then Inl ZeroDivisionError
      else Inr (self\<lparr>P_EM_kW := P_shaft_kW,
                     m_EM_lb := (P_shaft_kW / EM_specific_power_kW_kg (tech self)) * 2.20462,
                     m_GT_lb := 0,
                     m_GEN_lb := 0\<rparr>))"

definition Electric_get_power_split :: "Powertrain \<Rightarrow> real \<Rightarrow> real \<Rightarrow> error + power_split" where
  "Electric_get_power_split self P_required_kW Hp =
     (if EM_efficiency (tech self) = 0 then Inl ZeroDivisionError
      else Inr \<lparr>split_P_GT_kW = 0, split_P_EM_kW = P_required_kW,
                fuel_rate_kg_s = 0,
                battery_power_W = (P_required_kW * 1000) / EM_efficiency (tech self)\<rparr>)"

subsubsection \<open>Method dispatch\<close>

text \<open>A call \<^verbatim>\<open>powertrain.size_components(...)\<close> runs the method of the object's class.\<close>

definition size_components :: "Powertrain \<Rightarrow> real \<Rightarrow> real \<Rightarrow> error + Powertrain" where
  "size_components self P_shaft_kW Hp =
     (case arch self of
        Conventional \<Rightarrow> Conventional_size_components self P_shaft_kW Hp
      | ParallelHybrid \<Rightarrow> Parallel_size_components self P_shaft_kW Hp
      | SerialHybrid \<Rightarrow> Serial_size_components self P_shaft_kW Hp
      | FullyElectric \<Rightarrow> Electric_size_components self P_shaft_kW Hp)"

definition get_power_split :: "Powertrain \<Rightarrow> real \<Rightarrow> real \<Rightarrow> error + power_split" where
  "get_power_split self P_required_kW Hp =
     (case arch self of
        Conventional \<Rightarrow> Conventional_get_power_split self P_required_kW Hp
      | ParallelHybrid \<Rightarrow> Parallel_get_power_split self P_required_kW Hp
      | SerialHybrid \<Rightarrow> Serial_get_power_split self P_required_kW Hp
      | FullyElectric \<Rightarrow> Electric_get_power_split self P_required_kW Hp)"

subsubsection \<open>get\_power\_split on a numpy scalar\<close>

text \<open>
  The climb calls \<^verbatim>\<open>get_power_split\<close> with a required power that is a numpy scalar.
  The same method bodies then compute with numpy's arithmetic: no division raises, and
  the entries of the dictionary are numpy scalars, but for the entries that a body sets
  to the constant \<^verbatim>\<open>0.0\<close>. The ratio \<^verbatim>\<open>Hp\<close> and the constants are Python floats.
\<close>

record np_power_split =
  np_P_GT_kW :: npfloat
  np_P_EM_kW :: npfloat
  np_fuel_rate_kg_s :: npfloat
  np_battery_power_W :: npfloat

definition Conventional_get_power_split_np :: "Powertrain \<Rightarrow> npfloat \<Rightarrow> real \<Rightarrow> np_power_split" where
  "Conventional_get_power_split_np self P_required_kW Hp =
     (let fuel_rate = np_div (np_mult P_required_kW (Fin (GT_BSFC_kg_kWh (tech self)))) (Fin 3600)
      in \<lparr>np_P_GT_kW = P_required_kW, np_P_EM_kW = Fin 0,
          np_fuel_rate_kg_s = fuel_rate, np_battery_power_W = Fin 0\<rparr>)"

definition Parallel_get_power_split_np :: "Powertrain \<Rightarrow> npfloat \<Rightarrow> real \<Rightarrow> np_power_split" where
  "Parallel_get_power_split_np self P_required_kW Hp =
     (let p_GT = np_mult P_required_kW (Fin (1 - Hp));
          p_EM = np_mult P_required_kW (Fin Hp);
          fuel_rate = np_div (np_mult p_GT (Fin (GT_BSFC_kg_kWh (tech self)))) (Fin 3600);
          battery_power = np_div (np_mult p_EM (Fin 1000)) (Fin (EM_efficiency (tech self)))
      in \<lparr>np_P_GT_kW = p_GT, np_P_EM_kW = p_EM,
          np_fuel_rate_kg_s = fuel_rate, np_battery_power_W = battery_power\<rparr>)"

definition Serial_get_power_split_np :: "Powertrain \<Rightarrow> npfloat \<Rightarrow> real \<Rightarrow> np_power_split" where
  "Serial_get_power_split_np self P_required_kW Hp =
     (let p_EM = P_required_kW;
          P_electric_kW = np_div p_EM (Fin (EM_efficiency (tech self)));
          P_battery_kW = np_mult P_electric_kW (Fin Hp);
          P_generator_kW = np_mult P_electric_kW (Fin (1 - Hp));
          p_GT = np_div P_generator_kW (Fin (GEN_efficiency (tech self)));
          fuel_rate = np_div (np_mult p_GT (Fin (GT_BSFC_kg_kWh (tech self)))) (Fin 3600);
          battery_power = np_mult P_battery_kW (Fin 1000)
      in \<lparr>np_P_GT_kW = p_GT, np_P_EM_kW = p_EM,
          np_fuel_rate_kg_s = fuel_rate, np_battery_power_W = battery_power\<rparr>)"

definition Electric_get_power_split_np :: "Powertrain \<Rightarrow> npfloat \<Rightarrow> real \<Rightarrow> np_power_split" where
  "Electric_get_power_split_np self P_required_kW Hp =
     (let battery_power =
            np_div (np_mult P_required_kW (Fin 1000)) (Fin (EM_efficiency (tech self)))
      in \<lparr>np_P_GT_kW = Fin 0, np_P_EM_kW = P_required_kW,
          np_fuel_rate_kg_s = Fin 0, np_battery_power_W = battery_power\<rparr>)"

definition get_power_split_np :: "Powertrain \<Rightarrow> npfloat \<Rightarrow> real \<Rightarrow> np_power_split" where
  "get_power_split_np self P_required_kW Hp =
     (case arch self of
        Conventional \<Rightarrow> Conventional_get_power_split_np self P_required_kW Hp
      | ParallelHybrid \<Rightarrow> Parallel_get_power_split_np self P_required_kW Hp
      | SerialHybrid \<Rightarrow> Serial_get_power_split_np self P_required_kW Hp
      | FullyElectric \<Rightarrow> Electric_get_power_split_np self P_required_kW Hp)"

text \<open>A dictionary of Python floats read as one of numpy scalars.\<close>

definition np_of_split :: "power_split \<Rightarrow> np_power_split" where
  "np_of_split s =
     \<lparr>np_P_GT_kW = Fin (split_P_GT_kW s), np_P_EM_kW = Fin (split_P_EM_kW s),
      np_fuel_rate_kg_s = Fin (fuel_rate_kg_s s), np_battery_power_W = Fin (battery_power_W s)\<rparr>"

section \<open>mission.py\<close>

subsection \<open>MissionSegment\<close>

record MissionSegment =
  name :: string
  altitude_start_ft :: real
  altitude_end_ft :: real
  Hp :: real
  time_sec :: real
  fuel_lb :: real
  battery_Wh :: real
  distance_nm :: real

text \<open>
  The constructor call \<^verbatim>\<open>MissionSegment(name, start, end, Hp)\<close>: the four result
  fields take their default \<^verbatim>\<open>0.0\<close>.
\<close>

definition MissionSegment_init :: "string \<Rightarrow> real \<Rightarrow> real \<Rightarrow> real \<Rightarrow> MissionSegment" where
  "MissionSegment_init n a_start a_end h =
     \<lparr>name = n, altitude_start_ft = a_start, altitude_end_ft = a_end, Hp = h,
      time_sec = 0, fuel_lb = 0, battery_Wh = 0, distance_nm = 0\<rparr>"

subsection \<open>The aircraft object\<close>

text \<open>
  The functions of \<^verbatim>\<open>mission.py\<close> take the aircraft as \<^verbatim>\<open>self\<close>. The record holds
  the attributes they read (\<^verbatim>\<open>self.tech\<close> is the field \<open>aircraft_tech\<close>, the name
  \<open>tech\<close> being the powertrain's) and the three attributes of the blown-lift
  configuration that \<^verbatim>\<open>test_blown_lift.py\<close> reads. The class itself
  (\<^verbatim>\<open>aircraft.py\<close>) is not among the sources.
\<close>

record Aircraft =
  cruise_alt_ft :: real
  cruise_speed_kts :: real
  range_nm :: real
  CD0 :: real
  K1 :: real
  CLmax_clean :: real
  aircraft_tech :: TechnologySpec
  powertrain :: Powertrain
  dep_enabled :: bool
  dep_lift_aug_max :: real
  dep_blown_span_fraction :: real

subsection \<open>create\_mission\<close>

text \<open>\<^verbatim>\<open>d.get(key, default)\<close> on a dictionary.\<close>

definition dict_get :: "('k \<rightharpoonup> 'v) \<Rightarrow> 'k \<Rightarrow> 'v \<Rightarrow> 'v" where
  "dict_get d key dflt = (case d key of None \<Rightarrow> dflt | Some v \<Rightarrow> v)"

definition create_mission :: "Aircraft \<Rightarrow> (string \<rightharpoonup> real) \<Rightarrow> MissionSegment list" where
  "create_mission self hybridization_profile =
     [MissionSegment_init ''takeoff'' 0 35 (dict_get hybridization_profile ''takeoff'' 0),
      MissionSegment_init ''climb'' 35 (cruise_alt_ft self)
        (dict_get hybridization_profile ''climb'' 0),
      MissionSegment_init ''cruise'' (cruise_alt_ft self) (cruise_alt_ft self)
        (dict_get hybridization_profile ''cruise'' 0),
      MissionSegment_init ''descent'' (cruise_alt_ft self) 450
        (dict_get hybridization_profile ''descent'' 0),
      MissionSegment_init ''loiter'' 450 450 (dict_get hybridization_profile ''loiter'' 0),
      MissionSegment_init ''landing'' 450 0 (dict_get hybridization_profile ''landing'' 0)]"

subsection \<open>Segment simulations\<close>

text \<open>
  The atmosphere lookup \<^verbatim>\<open>atmosisa\<close> belongs to a module that is not among the
  sources. It is a parameter of the model: a function from the altitude in metres to a
  4-tuple whose third component is the density in \<open>kg/m\<^sup>3\<close>.
\<close>

type_synonym atmosphere = "real \<Rightarrow> real \<times> real \<times> real \<times> real"

text \<open>
  \<^verbatim>\<open>simulate_cruise_segment\<close> assigns \<^verbatim>\<open>segment.distance_nm\<close>, so the model
  returns the updated segment before the tuple of time, fuel and battery energy.
\<close>

definition simulate_cruise_segment ::
  "atmosphere \<Rightarrow> Aircraft \<Rightarrow> MissionSegment \<Rightarrow> real \<Rightarrow> real \<Rightarrow>
   error + MissionSegment \<times> real \<times> real \<times> real" where
  "simulate_cruise_segment atmosisa self segment W_lb S_ft2 =
     (let h_m = altitude_start_ft segment * 0.3048;
          rho_kg_m3 = fst (snd (snd (atmosisa h_m)));
          rho_slug_ft3 = rho_kg_m3 / 515.379;
          V_fps = cruise_speed_kts self * 1.688
      in if 0.5 * rho_slug_ft3 * V_fps ^ 2 * S_ft2 = 0 then Inl ZeroDivisionError
         else
           let CL = W_lb / (0.5 * rho_slug_ft3 * V_fps ^ 2 * S_ft2);
               CD = CD0 self + K1 self * CL ^ 2;
               D_lb = 0.5 * rho_slug_ft3 * V_fps ^ 2 * S_ft2 * CD
           in if 550 * prop_efficiency (aircraft_tech self) = 0 then Inl ZeroDivisionError
              else
                let P_shaft_HP = D_lb * V_fps / (550 * prop_efficiency (aircraft_tech self));
                    P_shaft_kW = P_shaft_HP * 0.7457
                in case get_power_split (powertrain self) P_shaft_kW (Hp segment) of
                     Inl e \<Rightarrow> Inl e
                   | Inr split \<Rightarrow>
                       let distance_ft = range_nm self * 6076.12
                       in if V_fps = 0 then Inl ZeroDivisionError
                          else
                            let t = distance_ft / V_fps;
                                f = fuel_rate_kg_s split * t * 2.20462;
                                b = (battery_power_W split * t) / 3600
                            in Inr (segment\<lparr>distance_nm := range_nm self\<rparr>, t, f, b))"

text \<open>
  In \<^verbatim>\<open>simulate_climb_segment\<close> the weight, the wing area and the aircraft's
  constants are Python floats, so the division under the square root raises at a zero
  divisor. The stall speed is a numpy scalar, and from there on the arithmetic is
  numpy's. The function returns its three results as numpy scalars.
\<close>

definition simulate_climb_segment ::
  "Aircraft \<Rightarrow> MissionSegment \<Rightarrow> real \<Rightarrow> real \<Rightarrow> error + npfloat \<times> npfloat \<times> npfloat" where
  "simulate_climb_segment self segment W_lb S_ft2 =
     (let W_avg = W_lb * 0.99;
          rho_sl = 0.002377
      in if rho_sl * S_ft2 * CLmax_clean self = 0 then Inl ZeroDivisionError
         else
           let V_stall_fps = np_sqrt (Fin (2 * W_avg / (rho_sl * S_ft2 * CLmax_clean self)));
               V_climb_fps = np_mult (Fin 1.3) V_stall_fps;
               gamma = 0.05;
               ROC_fps = np_mult V_climb_fps (Fin gamma);
               CL_climb =
                 np_div (Fin W_avg)
                   (np_mult (np_mult (Fin (0.5 * rho_sl)) (np_square V_climb_fps)) (Fin S_ft2));
               CD_climb = np_add (Fin (CD0 self)) (np_mult (Fin (K1 self)) (np_square CL_climb));
               T_lb =
                 np_mult (Fin W_avg)
                   (np_add (np_div (Fin 1) (np_div CL_climb CD_climb)) (Fin gamma));
               P_shaft_HP =
                 np_div (np_mult T_lb V_climb_fps)
                   (Fin (550 * prop_efficiency (aircraft_tech self)));
               P_shaft_kW = np_mult P_shaft_HP (Fin 0.7457);
               split = get_power_split_np (powertrain self) P_shaft_kW (Hp segment);
               alt_change_ft = altitude_end_ft segment - altitude_start_ft segment;
               t = (if np_greater ROC_fps (Fin 0) then np_div (Fin alt_change_ft) ROC_fps
                    else Fin 600);
               f = np_mult (np_mult (np_fuel_rate_kg_s split) t) (Fin 2.20462);
               b = np_div (np_mult (np_battery_power_W split) t) (Fin 3600)
           in Inr (t, f, b))"

definition simulate_descent_segment ::
  "Aircraft \<Rightarrow> MissionSegment \<Rightarrow> real \<Rightarrow> real \<Rightarrow> real \<times> real \<times> real" where
  "simulate_descent_segment self segment W_lb S_ft2 = (480, 0.02 * W_lb, 100)"

definition simulate_simple_segment ::
  "Aircraft \<Rightarrow> MissionSegment \<Rightarrow> real \<Rightarrow> real \<Rightarrow> real \<times> real \<times> real" where
  "simulate_simple_segment self segment W_lb S_ft2 = (180, 0.01 * W_lb, 200)"

subsection \<open>simulate\_mission\<close>

text \<open>
  The loop goes on with the results of a climb when all three are real numbers.
\<close>

fun real_results :: "npfloat \<times> npfloat \<times> npfloat \<Rightarrow> error + real \<times> real \<times> real" where
  "real_results (Fin t, Fin f, Fin b) = Inr (t, f, b)"
| "real_results tfb = Inl NotFinite"

text \<open>
  The body of the loop first picks the simulation by the segment's name. The model
  returns the segment as the chosen simulation leaves it, and the tuple of time, fuel
  and battery energy.
\<close>

definition simulate_segment ::
  "atmosphere \<Rightarrow> Aircraft \<Rightarrow> MissionSegment \<Rightarrow> real \<Rightarrow> real \<Rightarrow>
   error + MissionSegment \<times> real \<times> real \<times> real" where
  "simulate_segment atmosisa self segment W_current_lb S_wing_ft2 =
     (if name segment = ''cruise''
        then simulate_cruise_segment atmosisa self segment W_current_lb S_wing_ft2
      else if name segment = ''climb''
        then (case simulate_climb_segment self segment W_current_lb S_wing_ft2 of
                Inl e \<Rightarrow> Inl e
              | Inr tfb \<Rightarrow>
                  (case real_results tfb of
                     Inl e \<Rightarrow> Inl e
                   | Inr tfb' \<Rightarrow> Inr (segment, tfb')))
      else if name segment = ''descent''
        then Inr (segment, simulate_descent_segment self segment W_current_lb S_wing_ft2)
      else Inr (segment, simulate_simple_segment self segment W_current_lb S_wing_ft2))"

text \<open>
  \<^verbatim>\<open>simulate_mission\<close> writes the results into the segment objects of the list it
  is given, and returns that same list. The objects live in a store: a segment list is a
  list of references, and the store maps a reference to the object's current fields. Two
  entries of a list may be the same reference, as two entries of a Python list may be the
  same object.

  The loop carries \<^verbatim>\<open>W_current_lb\<close>, \<^verbatim>\<open>total_fuel_lb\<close>, \<^verbatim>\<open>total_battery_Wh\<close> and
  \<^verbatim>\<open>total_time_sec\<close>, in this order, and the store. When a segment's simulation
  raises, so does the loop.
\<close>

type_synonym ref = nat
type_synonym store = "ref \<Rightarrow> MissionSegment"

fun mission_loop ::
  "atmosphere \<Rightarrow> Aircraft \<Rightarrow> real \<Rightarrow> ref list \<Rightarrow> real \<times> real \<times> real \<times> real \<Rightarrow> store \<Rightarrow>
   error + (real \<times> real \<times> real \<times> real) \<times> store" where
  "mission_loop atmosisa self S_wing_ft2 [] totals st = Inr (totals, st)"
| "mission_loop atmosisa self S_wing_ft2 (r # rs) (W_current_lb, fuel, battery, time) st =
     (case simulate_segment atmosisa self (st r) W_current_lb S_wing_ft2 of
        Inl e \<Rightarrow> Inl e
      | Inr (segment, t, f, b) \<Rightarrow>
          mission_loop atmosisa self S_wing_ft2 rs
            (W_current_lb - f, fuel + f, battery + b, time + t)
            (st(r := segment\<lparr>time_sec := t, fuel_lb := f, battery_Wh := b\<rparr>)))"

record mission_result =
  total_fuel_lb :: real
  total_battery_Wh :: real
  total_time_sec :: real
  segments :: "ref list"

definition simulate_mission ::
  "atmosphere \<Rightarrow> Aircraft \<Rightarrow> ref list \<Rightarrow> real \<Rightarrow> real \<Rightarrow> store \<Rightarrow> error + mission_result \<times> store" where
  "simulate_mission atmosisa self segs TOGW_lb S_wing_ft2 st =
     (case mission_loop atmosisa self S_wing_ft2 segs (TOGW_lb, 0, 0, 0) st of
        Inl e \<Rightarrow> Inl e
      | Inr ((W_current_lb, fuel, battery, time), st') \<Rightarrow>
          Inr (\<lparr>total_fuel_lb = fuel, total_battery_Wh = battery, total_time_sec = time,
                segments = segs\<rparr>, st'))"

text \<open>
  The sums of the results stored on the segment objects of a list, as the store holds
  them: what a caller computes from the list that \<^verbatim>\<open>simulate_mission\<close> returns.
\<close>

definition stored_fuel_lb :: "store \<Rightarrow> ref list \<Rightarrow> real" where
  "stored_fuel_lb st rs = (\<Sum>r\<leftarrow>rs. fuel_lb (st r))"

definition stored_battery_Wh :: "store \<Rightarrow> ref list \<Rightarrow> real" where
  "stored_battery_Wh st rs = (\<Sum>r\<leftarrow>rs. battery_Wh (st r))"

definition stored_time_sec :: "store \<Rightarrow> ref list \<Rightarrow> real" where
  "stored_time_sec st rs = (\<Sum>r\<leftarrow>rs. time_sec (st r))"

section \<open>The lift-augmentation model\<close>

text \<open>
  Modelled from the spec: the method \<^verbatim>\<open>get_lift_augmentation_factor\<close> of the aircraft
  class is missing from the sources (\<^verbatim>\<open>aircraft.py\<close>); only its call in
  \<^verbatim>\<open>test_blown_lift.py\<close> is there. The specification gives the contract
  \<^verbatim>\<open>augmentation_factor(active, span_fraction, max_factor)\<close>: 1.0 if \<^verbatim>\<open>active\<close> is
  false or distributed-electric high lift is disabled, else
  \<^verbatim>\<open>1.0 + (max_factor - 1.0) * span_fraction\<close>. Whether high lift is enabled is
  configuration state; it is the first argument here.
\<close>

definition augmentation_factor :: "bool \<Rightarrow> bool \<Rightarrow> real \<Rightarrow> real \<Rightarrow> real" where
  "augmentation_factor enabled active span_fraction max_factor =
     (if \<not> active \<or> \<not> enabled then 1 else 1 + (max_factor - 1) * span_fraction)"

text \<open>
  Modelled from the spec: the method as \<^verbatim>\<open>test_blown_lift.py\<close> calls it, on the
  aircraft's blown-lift configuration.
\<close>

definition get_lift_augmentation_factor :: "Aircraft \<Rightarrow> bool \<Rightarrow> real" where
  "get_lift_augmentation_factor self blown_lift_active =
     augmentation_factor (dep_enabled self) blown_lift_active
       (dep_blown_span_fraction self) (dep_lift_aug_max self)"

text \<open>
  Modelled from the spec: the climb of the specification. Its stall speed is computed
  from sea-level density, the average weight (99 percent of the current weight), the wing
  area and \<^verbatim>\<open>CLmax_clean\<close>, augmented when blown lift is active for the segment; the
  climb speed is 1.3 times the stall speed, the rate of climb 5 percent of the climb
  speed, and the time the altitude change over the rate of climb. Used only to compare
  \<open>simulate_climb_segment\<close> with it.
\<close>

definition spec_climb_speed_fps :: "Aircraft \<Rightarrow> bool \<Rightarrow> real \<Rightarrow> real \<Rightarrow> real" where
  "spec_climb_speed_fps self blown_lift_active W_lb S_ft2 =
     1.3 * sqrt (2 * (0.99 * W_lb)
                 / (0.002377 * S_ft2
                    * (CLmax_clean self * get_lift_augmentation_factor self blown_lift_active)))"

definition spec_climb_time_sec :: "Aircraft \<Rightarrow> MissionSegment \<Rightarrow> bool \<Rightarrow> real \<Rightarrow> real \<Rightarrow> real" where
  "spec_climb_time_sec self segment blown_lift_active W_lb S_ft2 =
     (altitude_end_ft segment - altitude_start_ft segment)
       / (0.05 * spec_climb_speed_fps self blown_lift_active W_lb S_ft2)"

section \<open>Sample data\<close>

subsection \<open>A sample technology\<close>

text \<open>
  The constants come from a configuration file that is not part of the sources. The
  functions above take them as the fields of \<open>tech\<close>; the closed examples below use this
  sample set of values.
\<close>

definition example_tech :: TechnologySpec where
  "example_tech =
     \<lparr>GT_specific_power_kW_kg = 5, GT_efficiency = 0.3, GT_BSFC_kg_kWh = 0.36,
      EM_specific_power_kW_kg = 5, EM_efficiency = 0.95,
      GEN_specific_power_kW_kg = 5, GEN_efficiency = 0.95,
      battery_specific_energy_Wh_kg = 250, battery_specific_power_kW_kg = 1,
      battery_SOC_margin = 0.2, battery_DOD = 0.8, prop_efficiency = 0.8\<rparr>"

subsection \<open>A sample aircraft and atmosphere\<close>

text \<open>
  A parallel-hybrid aircraft with blown lift enabled over the whole span, and an
  atmosphere that returns sea-level values at every altitude.
\<close>

definition example_aircraft :: Aircraft where
  "example_aircraft =
     \<lparr>cruise_alt_ft = 6535, cruise_speed_kts = 200, range_nm = 350, CD0 = 0.03, K1 = 0.05,
      CLmax_clean = 2, aircraft_tech = example_tech,
      powertrain = PowertrainBase_init ParallelHybrid example_tech,
      dep_enabled = True, dep_lift_aug_max = 1.5625, dep_blown_span_fraction = 1\<rparr>"

definition example_atmosisa :: atmosphere where
  "example_atmosisa h_m = (288.15, 101325, 1.225, 340.294)"

subsection \<open>A sample store\<close>

text \<open>
  Object 0 is a takeoff segment, object 1 a descent segment, and every other object a
  landing segment.
\<close>

definition example_store :: store where
  "example_store r =
     (if r = 0 then MissionSegment_init ''takeoff'' 0 35 0.5
      else if r = 1 then MissionSegment_init ''descent'' 6535 450 0
      else MissionSegment_init ''landing'' 450 0 0.3)"

subsection \<open>Sample segments\<close>

definition example_climb :: MissionSegment where
  "example_climb = MissionSegment_init ''climb'' 35 6535 0.3"

definition example_cruise :: MissionSegment where
  "example_cruise = MissionSegment_init ''cruise'' 6535 6535 0.2"

section \<open>Properties of the powertrain family\<close>

lemma get_power_split_Conventional:
  "arch self = Conventional \<Longrightarrow>
   get_power_split self P hp =
     Inr \<lparr>split_P_GT_kW = P, split_P_EM_kW = 0,
          fuel_rate_kg_s = (P * GT_BSFC_kg_kWh (tech self)) / 3600, battery_power_W = 0\<rparr>"
  by (simp add: get_power_split_def Conventional_get_power_split_def Let_def)

lemma get_power_split_Parallel:
  "arch self = ParallelHybrid \<Longrightarrow> EM_efficiency (tech self) \<noteq> 0 \<Longrightarrow>
   get_power_split self P hp =
     Inr \<lparr>split_P_GT_kW = P * (1 - hp), split_P_EM_kW = P * hp,
          fuel_rate_kg_s = (P * (1 - hp) * GT_BSFC_kg_kWh (tech self)) / 3600,
          battery_power_W = (P * hp * 1000) / EM_efficiency (tech self)\<rparr>"
  by (simp add: get_power_split_def Parallel_get_power_split_def Let_def)

lemma get_power_split_Serial:
  "arch self = SerialHybrid \<Longrightarrow> EM_efficiency (tech self) \<noteq> 0 \<Longrightarrow>
   GEN_efficiency (tech self) \<noteq> 0 \<Longrightarrow>
   get_power_split self P hp =
     Inr \<lparr>split_P_GT_kW = P / EM_efficiency (tech self) * (1 - hp) / GEN_efficiency (tech self),
          split_P_EM_kW = P,
          fuel_rate_kg_s =
            (P / EM_efficiency (tech self) * (1 - hp) / GEN_efficiency (tech self)
               * GT_BSFC_kg_kWh (tech self)) / 3600,
          battery_power_W = P / EM_efficiency (tech self) * hp * 1000\<rparr>"
  by (simp add: get_power_split_def Serial_get_power_split_def Let_def)

lemma get_power_split_Electric:
  "arch self = FullyElectric \<Longrightarrow> EM_efficiency (tech self) \<noteq> 0 \<Longrightarrow>
   get_power_split self P hp =
     Inr \<lparr>split_P_GT_kW = 0, split_P_EM_kW = P, fuel_rate_kg_s = 0,
          battery_power_W = (P * 1000) / EM_efficiency (tech self)\<rparr>"
  by (simp add: get_power_split_def Electric_get_power_split_def Let_def)

lemma size_components_Conventional:
  "arch self = Conventional \<Longrightarrow> GT_specific_power_kW_kg (tech self) \<noteq> 0 \<Longrightarrow>
   size_components self P hp =
     Inr (self\<lparr>P_GT_kW := P,
               m_GT_lb := (P / GT_specific_power_kW_kg (tech self)) * 2.20462,
               m_EM_lb := 0, m_GEN_lb := 0\<rparr>)"
  by (simp add: size_components_def Conventional_size_components_def Let_def)

lemma size_components_Parallel:
  "arch self = ParallelHybrid \<Longrightarrow> EM_specific_power_kW_kg (tech self) \<noteq> 0 \<Longrightarrow>
   GT_specific_power_kW_kg (tech self) \<noteq> 0 \<Longrightarrow>
   size_components self P hp =
     Inr (self\<lparr>P_EM_kW := P * hp, P_GT_kW := P * (1 - hp),
               m_EM_lb := (P * hp / EM_specific_power_kW_kg (tech self)) * 2.20462,
               m_GT_lb := (P * (1 - hp) / GT_specific_power_kW_kg (tech self)) * 2.20462,
               m_GEN_lb := 0\<rparr>)"
  by (simp add: size_components_def Parallel_size_components_def Let_def)

lemma size_components_Serial:
  "arch self = SerialHybrid \<Longrightarrow> EM_efficiency (tech self) \<noteq> 0 \<Longrightarrow>
   GEN_efficiency (tech self) \<noteq> 0 \<Longrightarrow> EM_specific_power_kW_kg (tech self) \<noteq> 0 \<Longrightarrow>
   GEN_specific_power_kW_kg (tech self) \<noteq> 0 \<Longrightarrow> GT_specific_power_kW_kg (tech self) \<noteq> 0 \<Longrightarrow>
   size_components self P hp =
     Inr (self\<lparr>P_EM_kW := P,
               P_GEN_kW := P / EM_efficiency (tech self) * (1 - hp),
               P_GT_kW := P / EM_efficiency (tech self) * (1 - hp) / GEN_efficiency (tech self),
               m_EM_lb := (P / EM_specific_power_kW_kg (tech self)) * 2.20462,
               m_GEN_lb := (P / EM_efficiency (tech self) * (1 - hp)
                             / GEN_specific_power_kW_kg (tech self)) * 2.20462,
               m_GT_lb := (P / EM_efficiency (tech self) * (1 - hp) / GEN_efficiency (tech self)
                            / GT_specific_power_kW_kg (tech self)) * 2.20462\<rparr>)"
  by (simp add: size_components_def Serial_size_components_def Let_def)

lemma size_components_Electric:
  "arch self = FullyElectric \<Longrightarrow> EM_specific_power_kW_kg (tech self) \<noteq> 0 \<Longrightarrow>
   size_components self P hp =
     Inr (self\<lparr>P_EM_kW := P,
               m_EM_lb := (P / EM_specific_power_kW_kg (tech self)) * 2.20462,
               m_GT_lb := 0, m_GEN_lb := 0\<rparr>)"
  by (simp add: size_components_def Electric_size_components_def Let_def)

lemma get_power_split_np_Fin:
  assumes "get_power_split self P hp = Inr s"
  shows "get_power_split_np self (Fin P) hp = np_of_split s"
proof (cases "arch self")
  case Conventional
  with assms show ?thesis
    by (auto simp: get_power_split_def get_power_split_np_def Conventional_get_power_split_def
        Conventional_get_power_split_np_def np_of_split_def Let_def)
next
  case ParallelHybrid
  with assms show ?thesis
    by (auto simp: get_power_split_def get_power_split_np_def Parallel_get_power_split_def
        Parallel_get_power_split_np_def np_of_split_def Let_def split: if_splits)
next
  case SerialHybrid
  with assms show ?thesis
    by (auto simp: get_power_split_def get_power_split_np_def Serial_get_power_split_def
        Serial_get_power_split_np_def np_of_split_def Let_def split: if_splits)
next
  case FullyElectric
  with assms show ?thesis
    by (auto simp: get_power_split_def get_power_split_np_def Electric_get_power_split_def
        Electric_get_power_split_np_def np_of_split_def Let_def split: if_splits)
qed

text \<open>
  C3. A parallel hybrid splits the required power directly by \<open>Hp\<close>: the turbine gets
  \<open>P * (1 - Hp)\<close> and the motor \<open>P * Hp\<close>; the fuel rate is the turbine share times the
  BSFC over 3600, and the battery power is the motor share in watts over the motor
  efficiency. \<open>size_components\<close> gives the power ratings the same split, each mass is the
  rating over the component's specific power times 2.20462, and the generator mass is
  zero. This holds for every \<open>P\<close> and every \<open>Hp\<close>, so in particular for \<open>Hp\<close> in
  \<open>[0, 1]\<close>, whenever the three constants divided by are not zero.
\<close>

theorem parallel_hybrid_split_and_sizing:
  assumes "arch self = ParallelHybrid"
    and "EM_efficiency (tech self) \<noteq> 0"
    and "EM_specific_power_kW_kg (tech self) \<noteq> 0"
    and "GT_specific_power_kW_kg (tech self) \<noteq> 0"
  shows "get_power_split self P hp =
           Inr \<lparr>split_P_GT_kW = P * (1 - hp), split_P_EM_kW = P * hp,
                fuel_rate_kg_s = P * (1 - hp) * GT_BSFC_kg_kWh (tech self) / 3600,
                battery_power_W = P * hp * 1000 / EM_efficiency (tech self)\<rparr>
       \<and> size_components self P hp =
           Inr (self\<lparr>P_EM_kW := P * hp, P_GT_kW := P * (1 - hp),
                     m_EM_lb := P * hp / EM_specific_power_kW_kg (tech self) * 2.20462,
                     m_GT_lb := P * (1 - hp) / GT_specific_power_kW_kg (tech self) * 2.20462,
                     m_GEN_lb := 0\<rparr>)"
  using assms by (simp add: get_power_split_Parallel size_components_Parallel)

theorem parallel_hybrid_split_and_sizing_witness:
  "get_power_split (PowertrainBase_init ParallelHybrid example_tech) 1000 0.3 =
     Inr \<lparr>split_P_GT_kW = 700, split_P_EM_kW = 300, fuel_rate_kg_s = 0.07,
          battery_power_W = 300000 / 0.95\<rparr>
   \<and> size_components (PowertrainBase_init ParallelHybrid example_tech) 1000 0.3 =
     Inr \<lparr>arch = ParallelHybrid, tech = example_tech, m_GT_lb = 140 * 2.20462,
          m_EM_lb = 60 * 2.20462, m_GEN_lb = 0, m_battery_lb = 0, m_fuel_lb = 0,
          P_GT_kW = 700, P_EM_kW = 300, P_GEN_kW = 0\<rparr>"
  using parallel_hybrid_split_and_sizing
    [of "PowertrainBase_init ParallelHybrid example_tech" 1000 "0.3"]
  by (simp add: PowertrainBase_init_def example_tech_def)

text \<open>
  C4. A serial hybrid routes all shaft power through the motor (\<open>P_EM = P\<close>). The
  electrical power \<open>P / EM_efficiency\<close> is split by \<open>Hp\<close> into the battery share and the
  generator share; the turbine power is the generator share over the generator
  efficiency, the fuel rate is the turbine power times the BSFC over 3600, and the battery
  power is the battery share in watts, with no generator efficiency in it.
  \<open>size_components\<close> applies the same chain to the power ratings (and derives the three
  masses from them). This holds for every \<open>P\<close> and every \<open>Hp\<close>, so in particular for
  \<open>Hp\<close> in \<open>[0, 1]\<close>, whenever the constants divided by are not zero.
\<close>

theorem serial_hybrid_split_and_sizing:
  assumes "arch self = SerialHybrid"
    and "EM_efficiency (tech self) \<noteq> 0"
    and "GEN_efficiency (tech self) \<noteq> 0"
    and "EM_specific_power_kW_kg (tech self) \<noteq> 0"
    and "GEN_specific_power_kW_kg (tech self) \<noteq> 0"
    and "GT_specific_power_kW_kg (tech self) \<noteq> 0"
  shows "get_power_split self P hp =
           Inr \<lparr>split_P_GT_kW = P / EM_efficiency (tech self) * (1 - hp) / GEN_efficiency (tech self),
                split_P_EM_kW = P,
                fuel_rate_kg_s =
                  P / EM_efficiency (tech self) * (1 - hp) / GEN_efficiency (tech self)
                    * GT_BSFC_kg_kWh (tech self) / 3600,
                battery_power_W = P / EM_efficiency (tech self) * hp * 1000\<rparr>
       \<and> size_components self P hp =
           Inr (self\<lparr>P_EM_kW := P,
                     P_GEN_kW := P / EM_efficiency (tech self) * (1 - hp),
                     P_GT_kW := P / EM_efficiency (tech self) * (1 - hp) / GEN_efficiency (tech self),
                     m_EM_lb := P / EM_specific_power_kW_kg (tech self) * 2.20462,
                     m_GEN_lb := P / EM_efficiency (tech self) * (1 - hp)
                                   / GEN_specific_power_kW_kg (tech self) * 2.20462,
                     m_GT_lb := P / EM_efficiency (tech self) * (1 - hp) / GEN_efficiency (tech self)
                                  / GT_specific_power_kW_kg (tech self) * 2.20462\<rparr>)"
  using assms by (simp add: get_power_split_Serial size_components_Serial)

theorem serial_hybrid_split_and_sizing_witness:
  "get_power_split (PowertrainBase_init SerialHybrid example_tech) 361 0.5 =
     Inr \<lparr>split_P_GT_kW = 200, split_P_EM_kW = 361, fuel_rate_kg_s = 0.02,
          battery_power_W = 190000\<rparr>
   \<and> size_components (PowertrainBase_init SerialHybrid example_tech) 361 0.5 =
     Inr \<lparr>arch = SerialHybrid, tech = example_tech, m_GT_lb = 40 * 2.20462,
          m_EM_lb = 72.2 * 2.20462, m_GEN_lb = 38 * 2.20462, m_battery_lb = 0, m_fuel_lb = 0,
          P_GT_kW = 200, P_EM_kW = 361, P_GEN_kW = 190\<rparr>"
  using serial_hybrid_split_and_sizing
    [of "PowertrainBase_init SerialHybrid example_tech" 361 "0.5"]
  by (simp add: PowertrainBase_init_def example_tech_def)

text \<open>
  C1, as stated, fails: no method of the four classes looks at the range of \<open>Hp\<close> or at
  the sign of the power. At \<open>Hp = 1.0000001\<close> the parallel hybrid returns a split with a
  negative turbine share, and at a shaft power of \<open>-5\<close> it is sized with negative
  ratings and masses; neither call fails.
\<close>

theorem unvalidated_inputs_counterexample:
  "get_power_split (PowertrainBase_init ParallelHybrid example_tech) 100 1.0000001 =
     Inr \<lparr>split_P_GT_kW = - 0.00001, split_P_EM_kW = 100.00001,
          fuel_rate_kg_s = - 0.000000001, battery_power_W = 100000.01 / 0.95\<rparr>
   \<and> size_components (PowertrainBase_init ParallelHybrid example_tech) (- 5) 0.5 =
     Inr \<lparr>arch = ParallelHybrid, tech = example_tech, m_GT_lb = - 1.10231,
          m_EM_lb = - 1.10231, m_GEN_lb = 0, m_battery_lb = 0, m_fuel_lb = 0,
          P_GT_kW = - 2.5, P_EM_kW = - 2.5, P_GEN_kW = 0\<rparr>"
  by (simp add: get_power_split_def Parallel_get_power_split_def size_components_def
      Parallel_size_components_def PowertrainBase_init_def example_tech_def Let_def)

text \<open>
  C1, amended. No method looks at the range of \<open>Hp\<close> or at the sign of the power.
  Called with Python floats, \<open>size_components\<close> and \<open>get_power_split\<close> fail exactly
  when a constant that the variant divides by is zero, and then with
  \<open>ZeroDivisionError\<close>, whatever \<open>Hp\<close> and the power are. The sizing divides by the
  turbine's specific power (conventional), the motor's and the turbine's (parallel), both
  efficiencies and all three specific powers (serial), the motor's (electric); the split
  divides by nothing (conventional), the motor efficiency (parallel, electric), the motor
  and generator efficiencies (serial). In every other case both return, for every \<open>Hp\<close>
  inside \<open>[0, 1]\<close> or not and every power, positive, zero or negative, and a required
  power of zero gives the all-zero split. Wherever the split returns on a Python float,
  it returns the same entries on the numpy scalar of that value.
\<close>

theorem powertrain_fails_only_on_a_zero_divisor:
  fixes self :: Powertrain and P hp :: real
  defines "size_zero \<equiv>
    (case arch self of
       Conventional \<Rightarrow> GT_specific_power_kW_kg (tech self) = 0
     | ParallelHybrid \<Rightarrow>
         EM_specific_power_kW_kg (tech self) = 0 \<or> GT_specific_power_kW_kg (tech self) = 0
     | SerialHybrid \<Rightarrow>
         EM_efficiency (tech self) = 0 \<or> GEN_efficiency (tech self) = 0
         \<or> EM_specific_power_kW_kg (tech self) = 0 \<or> GEN_specific_power_kW_kg (tech self) = 0
         \<or> GT_specific_power_kW_kg (tech self) = 0
     | FullyElectric \<Rightarrow> EM_specific_power_kW_kg (tech self) = 0)"
    and "split_zero \<equiv>
    (case arch self of
       Conventional \<Rightarrow> False
     | ParallelHybrid \<Rightarrow> EM_efficiency (tech self) = 0
     | SerialHybrid \<Rightarrow> EM_efficiency (tech self) = 0 \<or> GEN_efficiency (tech self) = 0
     | FullyElectric \<Rightarrow> EM_efficiency (tech self) = 0)"
  shows "(size_components self P hp = Inl ZeroDivisionError \<longleftrightarrow> size_zero)
       \<and> ((\<exists>self'. size_components self P hp = Inr self') \<longleftrightarrow> \<not> size_zero)
       \<and> (get_power_split self P hp = Inl ZeroDivisionError \<longleftrightarrow> split_zero)
       \<and> ((\<exists>split. get_power_split self P hp = Inr split) \<longleftrightarrow> \<not> split_zero)
       \<and> (\<not> split_zero \<longrightarrow>
            get_power_split self 0 hp =
              Inr \<lparr>split_P_GT_kW = 0, split_P_EM_kW = 0, fuel_rate_kg_s = 0,
                   battery_power_W = 0\<rparr>)
       \<and> (\<forall>split. get_power_split self P hp = Inr split \<longrightarrow>
            get_power_split_np self (Fin P) hp = np_of_split split)"
proof -
  have np: "\<forall>split. get_power_split self P hp = Inr split \<longrightarrow>
            get_power_split_np self (Fin P) hp = np_of_split split"
    using get_power_split_np_Fin by blast
  show ?thesis
  proof (cases "arch self")
  case Conventional
  with np show ?thesis
    unfolding size_zero_def split_zero_def
    by (simp add: size_components_def get_power_split_def Conventional_size_components_def
        Conventional_get_power_split_def Let_def)
next
  case ParallelHybrid
  with np show ?thesis
    unfolding size_zero_def split_zero_def
    by (simp add: size_components_def get_power_split_def Parallel_size_components_def
        Parallel_get_power_split_def Let_def)
next
  case SerialHybrid
  with np show ?thesis
    unfolding size_zero_def split_zero_def
    by (simp add: size_components_def get_power_split_def Serial_size_components_def
        Serial_get_power_split_def Let_def)
next
  case FullyElectric
  with np show ?thesis
    unfolding size_zero_def split_zero_def
    by (simp add: size_components_def get_power_split_def Electric_size_components_def
        Electric_get_power_split_def Let_def)
qed
qed

theorem powertrain_fails_only_on_a_zero_divisor_witness:
  "(\<exists>self'. size_components (PowertrainBase_init SerialHybrid example_tech) (- 5) 2 = Inr self')
   \<and> (\<exists>split. get_power_split (PowertrainBase_init SerialHybrid example_tech) (- 5) 2 = Inr split)
   \<and> get_power_split (PowertrainBase_init SerialHybrid example_tech) 0 2 =
       Inr \<lparr>split_P_GT_kW = 0, split_P_EM_kW = 0, fuel_rate_kg_s = 0, battery_power_W = 0\<rparr>
   \<and> get_power_split_np (PowertrainBase_init SerialHybrid example_tech) (Fin 0) 2 =
       np_of_split
         \<lparr>split_P_GT_kW = 0, split_P_EM_kW = 0, fuel_rate_kg_s = 0, battery_power_W = 0\<rparr>
   \<and> get_power_split
         (PowertrainBase_init ParallelHybrid (example_tech\<lparr>EM_efficiency := 0\<rparr>)) 100 0.5
       = Inl ZeroDivisionError
   \<and> size_components
         (PowertrainBase_init ParallelHybrid (example_tech\<lparr>EM_efficiency := 0\<rparr>)) 100 0.5
       \<noteq> Inl ZeroDivisionError
   \<and> (\<exists>split. get_power_split
         (PowertrainBase_init Conventional
            (example_tech\<lparr>EM_efficiency := 0, GEN_efficiency := 0\<rparr>)) 100 0.5 = Inr split)"
  using powertrain_fails_only_on_a_zero_divisor
      [of "PowertrainBase_init SerialHybrid example_tech" "- 5" 2]
    powertrain_fails_only_on_a_zero_divisor
      [of "PowertrainBase_init SerialHybrid example_tech" 0 2]
    powertrain_fails_only_on_a_zero_divisor
      [of "PowertrainBase_init ParallelHybrid (example_tech\<lparr>EM_efficiency := 0\<rparr>)" 100 "0.5"]
    powertrain_fails_only_on_a_zero_divisor
      [of "PowertrainBase_init Conventional
             (example_tech\<lparr>EM_efficiency := 0, GEN_efficiency := 0\<rparr>)" 100 "0.5"]
  by (simp add: PowertrainBase_init_def example_tech_def)

text \<open>
  C2, as stated, fails for the serial hybrid at \<open>Hp = 0\<close>: its turbine feeds the shaft
  through the generator and the motor, so its fuel rate is the conventional one divided
  by both efficiencies. With efficiencies of 0.95 and a BSFC of 0.36, a required power of
  3600 kW costs \<open>144 / 361\<close> kg/s in the serial hybrid and \<open>9 / 25\<close> kg/s in the
  conventional powertrain.
\<close>

theorem serial_Hp0_fuel_rate_counterexample:
  "get_power_split (PowertrainBase_init SerialHybrid example_tech) 3600 0 =
     Inr \<lparr>split_P_GT_kW = 3600 / 0.9025, split_P_EM_kW = 3600,
          fuel_rate_kg_s = 144 / 361, battery_power_W = 0\<rparr>
   \<and> get_power_split (PowertrainBase_init Conventional example_tech) 3600 0 =
     Inr \<lparr>split_P_GT_kW = 3600, split_P_EM_kW = 0,
          fuel_rate_kg_s = 9 / 25, battery_power_W = 0\<rparr>
   \<and> (144 / 361 :: real) \<noteq> 9 / 25"
  by (simp add: get_power_split_def Serial_get_power_split_def Conventional_get_power_split_def
      PowertrainBase_init_def example_tech_def Let_def)

text \<open>
  C2, amended. Let a conventional, a parallel and a serial powertrain share one
  technology. For every required power \<open>P\<close>: at \<open>Hp = 0\<close> the parallel hybrid returns
  the conventional fuel rate and no battery power, and the serial hybrid returns no
  battery power and the conventional fuel rate divided by the product of the motor and
  generator efficiencies; at \<open>Hp = 1\<close> both return a fuel rate of exactly zero.
\<close>

theorem hybrid_fuel_rate_at_Hp_0_and_1:
  assumes "arch conv = Conventional" and "arch par = ParallelHybrid" and "arch ser = SerialHybrid"
    and "tech par = tech conv" and "tech ser = tech conv"
    and "EM_efficiency (tech conv) \<noteq> 0" and "GEN_efficiency (tech conv) \<noteq> 0"
  shows "\<exists>c p0 s0 p1 s1.
           get_power_split conv P 0 = Inr c
         \<and> get_power_split par P 0 = Inr p0 \<and> get_power_split ser P 0 = Inr s0
         \<and> get_power_split par P 1 = Inr p1 \<and> get_power_split ser P 1 = Inr s1
         \<and> fuel_rate_kg_s p0 = fuel_rate_kg_s c \<and> battery_power_W p0 = 0
         \<and> fuel_rate_kg_s s0 =
             fuel_rate_kg_s c / (EM_efficiency (tech conv) * GEN_efficiency (tech conv))
         \<and> battery_power_W s0 = 0
         \<and> fuel_rate_kg_s p1 = 0 \<and> fuel_rate_kg_s s1 = 0"
  using assms
  by (simp add: get_power_split_Conventional get_power_split_Parallel get_power_split_Serial)

theorem hybrid_fuel_rate_at_Hp_0_and_1_witness:
  "\<exists>c p0 s0 p1 s1.
     get_power_split (PowertrainBase_init Conventional example_tech) 3600 0 = Inr c
   \<and> get_power_split (PowertrainBase_init ParallelHybrid example_tech) 3600 0 = Inr p0
   \<and> get_power_split (PowertrainBase_init SerialHybrid example_tech) 3600 0 = Inr s0
   \<and> get_power_split (PowertrainBase_init ParallelHybrid example_tech) 3600 1 = Inr p1
   \<and> get_power_split (PowertrainBase_init SerialHybrid example_tech) 3600 1 = Inr s1
   \<and> fuel_rate_kg_s p0 = fuel_rate_kg_s c \<and> battery_power_W p0 = 0
   \<and> fuel_rate_kg_s s0 = fuel_rate_kg_s c / (0.95 * 0.95)
   \<and> battery_power_W s0 = 0
   \<and> fuel_rate_kg_s p1 = 0 \<and> fuel_rate_kg_s s1 = 0"
  using hybrid_fuel_rate_at_Hp_0_and_1
    [of "PowertrainBase_init Conventional example_tech"
        "PowertrainBase_init ParallelHybrid example_tech"
        "PowertrainBase_init SerialHybrid example_tech" 3600]
  by (simp add: PowertrainBase_init_def example_tech_def)

section \<open>Properties of the mission simulator\<close>

subsection \<open>The loop of simulate\_mission\<close>

lemma mission_loop_append:
  "mission_loop atm self S (xs @ ys) (W, tf, tb, tt) st =
     (case mission_loop atm self S xs (W, tf, tb, tt) st of
        Inl e \<Rightarrow> Inl e
      | Inr (totals, st1) \<Rightarrow> mission_loop atm self S ys totals st1)"
  by (induction xs arbitrary: W tf tb tt st) (auto split: sum.splits prod.splits)

lemma mission_loop_totals:
  "distinct rs \<Longrightarrow>
   mission_loop atm self S rs (W, tf, tb, tt) st = Inr ((W', tf', tb', tt'), st') \<Longrightarrow>
     W' = W - (\<Sum>r\<leftarrow>rs. fuel_lb (st' r))
   \<and> tf' = tf + (\<Sum>r\<leftarrow>rs. fuel_lb (st' r))
   \<and> tb' = tb + (\<Sum>r\<leftarrow>rs. battery_Wh (st' r))
   \<and> tt' = tt + (\<Sum>r\<leftarrow>rs. time_sec (st' r))
   \<and> (\<forall>r. r \<notin> set rs \<longrightarrow> st' r = st r)"
proof (induction rs arbitrary: W tf tb tt st)
  case Nil
  then show ?case by simp
next
  case (Cons r rs)
  from Cons.prems(2) obtain seg t f b where
    d: "simulate_segment atm self (st r) W S = Inr (seg, t, f, b)"
    and l: "mission_loop atm self S rs (W - f, tf + f, tb + b, tt + t)
              (st(r := seg\<lparr>time_sec := t, fuel_lb := f, battery_Wh := b\<rparr>)) =
            Inr ((W', tf', tb', tt'), st')"
    by (auto split: sum.splits prod.splits)
  from Cons.prems(1) have dr: "distinct rs" and nr: "r \<notin> set rs" by simp_all
  note ih = Cons.IH[OF dr l]
  from ih nr have r: "st' r = seg\<lparr>time_sec := t, fuel_lb := f, battery_Wh := b\<rparr>" by simp
  from ih r show ?case by auto
qed


lemma mission_loop_nth:
  assumes d: "distinct rs" and i: "i < length rs"
    and l: "mission_loop atm self S rs (W, tf, tb, tt) st = Inr (totals', st')"
  shows "\<exists>seg t f b.
           simulate_segment atm self (st (rs ! i)) (W - (\<Sum>r\<leftarrow>take i rs. fuel_lb (st' r))) S
             = Inr (seg, t, f, b)
         \<and> st' (rs ! i) = seg\<lparr>time_sec := t, fuel_lb := f, battery_Wh := b\<rparr>"
proof -
  have split: "rs = take i rs @ rs ! i # drop (Suc i) rs"
    using i by (simp add: id_take_nth_drop)
  have d1: "distinct (take i rs)" and d2: "distinct (drop (Suc i) rs)"
    using d by simp_all
  have n1: "rs ! i \<notin> set (take i rs)"
    using d i by (metis split distinct_append disjoint_iff distinct.simps(2) list.set_intros(1) not_distinct_conv_prefix)
  have n2: "rs ! i \<notin> set (drop (Suc i) rs)"
    using d split by (metis distinct_append distinct.simps(2))
  have disj: "set (take i rs) \<inter> set (rs ! i # drop (Suc i) rs) = {}"
    using d split by (metis distinct_append)
  obtain W1 tf1 tb1 tt1 st1 where
    l1: "mission_loop atm self S (take i rs) (W, tf, tb, tt) st = Inr ((W1, tf1, tb1, tt1), st1)"
    and l2: "mission_loop atm self S (rs ! i # drop (Suc i) rs) (W1, tf1, tb1, tt1) st1
               = Inr (totals', st')"
    using l mission_loop_append[of atm self S "take i rs" "rs ! i # drop (Suc i) rs" W tf tb tt st]
    by (subst (asm) split) (auto split: sum.splits prod.splits)
  obtain seg t f b where
    s: "simulate_segment atm self (st1 (rs ! i)) W1 S = Inr (seg, t, f, b)"
    and l3: "mission_loop atm self S (drop (Suc i) rs) (W1 - f, tf1 + f, tb1 + b, tt1 + t)
               (st1(rs ! i := seg\<lparr>time_sec := t, fuel_lb := f, battery_Wh := b\<rparr>))
             = Inr (totals', st')"
    using l2 by (auto split: sum.splits prod.splits)
  obtain W2 tf2 tb2 tt2 where t2: "totals' = (W2, tf2, tb2, tt2)"
    by (cases totals') auto
  note p1 = mission_loop_totals[OF d1 l1]
  note p2 = mission_loop_totals[OF d2 l3[unfolded t2]]
  have p3: "\<forall>r. r \<notin> set (rs ! i # drop (Suc i) rs) \<longrightarrow> st' r = st1 r"
    using p2 by simp
  have a: "st1 (rs ! i) = st (rs ! i)"
    using p1 n1 by simp
  have b: "st' (rs ! i) = seg\<lparr>time_sec := t, fuel_lb := f, battery_Wh := b\<rparr>"
    using p2 n2 by simp
  have "\<forall>r\<in>set (take i rs). st' r = st1 r"
    using p3 disj by blast
  then have c: "(\<Sum>r\<leftarrow>take i rs. fuel_lb (st1 r)) = (\<Sum>r\<leftarrow>take i rs. fuel_lb (st' r))"
    by (metis (mono_tags, lifting) map_eq_conv)
  have "W1 = W - (\<Sum>r\<leftarrow>take i rs. fuel_lb (st' r))"
    using p1 c by simp
  with s a b show ?thesis by auto
qed


lemma sum_list_take_mono:
  fixes g :: "'a \<Rightarrow> real"
  assumes "\<forall>x\<in>set xs. 0 \<le> g x" and "i \<le> j"
  shows "(\<Sum>x\<leftarrow>take i xs. g x) \<le> (\<Sum>x\<leftarrow>take j xs. g x)"
proof -
  have "take j xs = take i xs @ take (j - i) (drop i xs)"
    using assms(2) by (metis le_add_diff_inverse take_add)
  moreover have "0 \<le> (\<Sum>x\<leftarrow>take (j - i) (drop i xs). g x)"
    using assms(1) by (intro sum_list_nonneg) (auto dest!: in_set_takeD in_set_dropD)
  ultimately show ?thesis by simp
qed

lemma example_mission_run:
  "simulate_mission example_atmosisa example_aircraft [0, 1, 2] 10000 1000 example_store =
     Inr (\<lparr>total_fuel_lb = 395.02, total_battery_Wh = 500, total_time_sec = 840,
           segments = [0, 1, 2]\<rparr>,
          example_store
            (0 := (example_store 0)\<lparr>time_sec := 180, fuel_lb := 100, battery_Wh := 200\<rparr>,
             1 := (example_store 1)\<lparr>time_sec := 480, fuel_lb := 198, battery_Wh := 100\<rparr>,
             2 := (example_store 2)\<lparr>time_sec := 180, fuel_lb := 97.02, battery_Wh := 200\<rparr>))"
  by (simp add: simulate_mission_def simulate_segment_def simulate_descent_segment_def
      simulate_simple_segment_def example_store_def MissionSegment_init_def)

lemma aliased_run:
  "simulate_mission example_atmosisa example_aircraft [1, 1] 10000 1000 example_store =
     Inr (\<lparr>total_fuel_lb = 396, total_battery_Wh = 200, total_time_sec = 960,
           segments = [1, 1]\<rparr>,
          example_store
            (1 := (example_store 1)\<lparr>time_sec := 480, fuel_lb := 196, battery_Wh := 100\<rparr>))"
  by (simp add: simulate_mission_def simulate_segment_def simulate_descent_segment_def
      simulate_simple_segment_def example_store_def MissionSegment_init_def)

text \<open>
  C5, as stated, fails on a list that holds one segment object twice: the second pass
  overwrites the results that the first pass stored on the object, so the sum of the
  stored fuel counts the second burn twice, and differs from the returned total. Two
  passes over one descent segment from 10000 lb burn 200 lb and 196 lb: the total is
  396 lb, the object holds 196 lb, and the sum over the returned list is 392 lb.
\<close>

theorem aliased_segments_counterexample:
  "(case simulate_mission example_atmosisa example_aircraft [1, 1] 10000 1000 example_store of
      Inl e \<Rightarrow> False
    | Inr (res, st') \<Rightarrow>
        total_fuel_lb res = 396 \<and> stored_fuel_lb st' (segments res) = 392)"
  using aliased_run by (simp add: stored_fuel_lb_def)

text \<open>
  C5, amended. For every list of pairwise distinct segment objects and every starting
  weight: when \<open>simulate_mission\<close> returns, it returns the list it was given; the object
  at each position \<open>i\<close> holds the results of simulating that object at the weight
  \<open>TOGW\<close> minus the fuel stored on the objects at the positions before \<open>i\<close>, so the
  segments are processed in list order and the battery energy never enters the weight;
  when every stored fuel burn is non-negative, the weight at a later position is at most
  the weight at an earlier one; and the three totals are the sums of the fuel, battery
  energy and time stored on the returned segments.
\<close>

theorem simulate_mission_weights_and_totals:
  assumes "distinct segs"
    and "simulate_mission atm self segs TOGW S st = Inr (res, st')"
  shows "segments res = segs
       \<and> (\<forall>i<length segs. \<exists>seg t f b.
             simulate_segment atm self (st (segs ! i))
               (TOGW - stored_fuel_lb st' (take i segs)) S = Inr (seg, t, f, b)
           \<and> st' (segs ! i) = seg\<lparr>time_sec := t, fuel_lb := f, battery_Wh := b\<rparr>)
       \<and> ((\<forall>r\<in>set segs. 0 \<le> fuel_lb (st' r)) \<longrightarrow>
            (\<forall>i j. i \<le> j \<longrightarrow>
               TOGW - stored_fuel_lb st' (take j segs) \<le> TOGW - stored_fuel_lb st' (take i segs)))
       \<and> total_fuel_lb res = stored_fuel_lb st' segs
       \<and> total_battery_Wh res = stored_battery_Wh st' segs
       \<and> total_time_sec res = stored_time_sec st' segs"
proof -
  from assms(2) obtain W' tf' tb' tt' where
    l: "mission_loop atm self S segs (TOGW, 0, 0, 0) st = Inr ((W', tf', tb', tt'), st')"
    and r: "res = \<lparr>total_fuel_lb = tf', total_battery_Wh = tb', total_time_sec = tt',
                    segments = segs\<rparr>"
    by (auto simp: simulate_mission_def split: sum.splits prod.splits)
  note tot = mission_loop_totals[OF assms(1) l]
  have 1: "segments res = segs" using r by simp
  have 2: "\<forall>i<length segs. \<exists>seg t f b.
             simulate_segment atm self (st (segs ! i))
               (TOGW - stored_fuel_lb st' (take i segs)) S = Inr (seg, t, f, b)
           \<and> st' (segs ! i) = seg\<lparr>time_sec := t, fuel_lb := f, battery_Wh := b\<rparr>"
    unfolding stored_fuel_lb_def using mission_loop_nth[OF assms(1) _ l] by blast
  have 3: "(\<forall>r\<in>set segs. 0 \<le> fuel_lb (st' r)) \<longrightarrow>
            (\<forall>i j. i \<le> j \<longrightarrow>
               TOGW - stored_fuel_lb st' (take j segs) \<le> TOGW - stored_fuel_lb st' (take i segs))"
    unfolding stored_fuel_lb_def
    using sum_list_take_mono[of segs "\<lambda>r. fuel_lb (st' r)"] by auto
  have 4: "total_fuel_lb res = stored_fuel_lb st' segs"
    "total_battery_Wh res = stored_battery_Wh st' segs"
    "total_time_sec res = stored_time_sec st' segs"
    using tot r by (simp_all add: stored_fuel_lb_def stored_battery_Wh_def stored_time_sec_def)
  from 1 2 3 4 show ?thesis by blast
qed

theorem simulate_mission_weights_and_totals_witness:
  "distinct [0 :: nat, 1, 2]
   \<and> (case simulate_mission example_atmosisa example_aircraft [0, 1, 2] 10000 1000 example_store of
        Inl e \<Rightarrow> False
      | Inr (res, st') \<Rightarrow>
          segments res = [0, 1, 2]
        \<and> (\<exists>seg t f b.
              simulate_segment example_atmosisa example_aircraft (example_store 2)
                (10000 - stored_fuel_lb st' [0, 1]) 1000 = Inr (seg, t, f, b)
            \<and> st' 2 = seg\<lparr>time_sec := t, fuel_lb := f, battery_Wh := b\<rparr>)
        \<and> 10000 - stored_fuel_lb st' [0, 1] \<le> 10000 - stored_fuel_lb st' [0]
        \<and> total_fuel_lb res = stored_fuel_lb st' [0, 1, 2]
        \<and> total_battery_Wh res = stored_battery_Wh st' [0, 1, 2]
        \<and> total_time_sec res = stored_time_sec st' [0, 1, 2])"
proof -
  have d: "distinct [0 :: nat, 1, 2]" by simp
  note inst = simulate_mission_weights_and_totals[OF d example_mission_run]
  from inst have a: "\<forall>i<length [0 :: nat, 1, 2]. \<exists>seg t f b.
      simulate_segment example_atmosisa example_aircraft (example_store ([0, 1, 2] ! i))
        (10000 - stored_fuel_lb
           (example_store
             (0 := (example_store 0)\<lparr>time_sec := 180, fuel_lb := 100, battery_Wh := 200\<rparr>,
              1 := (example_store 1)\<lparr>time_sec := 480, fuel_lb := 198, battery_Wh := 100\<rparr>,
              2 := (example_store 2)\<lparr>time_sec := 180, fuel_lb := 97.02, battery_Wh := 200\<rparr>))
           (take i [0, 1, 2])) 1000 = Inr (seg, t, f, b)
      \<and> (example_store
             (0 := (example_store 0)\<lparr>time_sec := 180, fuel_lb := 100, battery_Wh := 200\<rparr>,
              1 := (example_store 1)\<lparr>time_sec := 480, fuel_lb := 198, battery_Wh := 100\<rparr>,
              2 := (example_store 2)\<lparr>time_sec := 180, fuel_lb := 97.02, battery_Wh := 200\<rparr>))
           ([0, 1, 2] ! i) = seg\<lparr>time_sec := t, fuel_lb := f, battery_Wh := b\<rparr>"
    by blast
  have two: "(2 :: nat) < length [0 :: nat, 1, 2]" by simp
  have tk: "take 2 [0 :: nat, 1, 2] = [0, 1]" by simp
  note a2 = a[rule_format, OF two, unfolded tk]
  from inst have m: "10000 - stored_fuel_lb
           (example_store
             (0 := (example_store 0)\<lparr>time_sec := 180, fuel_lb := 100, battery_Wh := 200\<rparr>,
              1 := (example_store 1)\<lparr>time_sec := 480, fuel_lb := 198, battery_Wh := 100\<rparr>,
              2 := (example_store 2)\<lparr>time_sec := 180, fuel_lb := 97.02, battery_Wh := 200\<rparr>))
           [0, 1] \<le> 10000 - stored_fuel_lb
           (example_store
             (0 := (example_store 0)\<lparr>time_sec := 180, fuel_lb := 100, battery_Wh := 200\<rparr>,
              1 := (example_store 1)\<lparr>time_sec := 480, fuel_lb := 198, battery_Wh := 100\<rparr>,
              2 := (example_store 2)\<lparr>time_sec := 180, fuel_lb := 97.02, battery_Wh := 200\<rparr>))
           [0]"
    by (simp add: stored_fuel_lb_def)
  from inst a2 m d example_mission_run show ?thesis
    by simp
qed

subsection \<open>The segments of fixed duration\<close>

text \<open>
  C8. The descent simulation returns 480 seconds, a fuel burn of 2 percent of the current
  weight and 100 Wh of battery energy; the simple simulation returns 180 seconds, 1
  percent of the current weight and 200 Wh. The loop of \<open>simulate_mission\<close> runs the
  first on a segment named descent and the second on a segment named takeoff, loiter or
  landing. The results hold for every aircraft (so every powertrain) and every segment
  (so every altitude and every \<open>Hp\<close>), and depend on the weight alone.
\<close>

theorem fixed_duration_segments:
  "simulate_descent_segment self segment W S = (480, 0.02 * W, 100)
   \<and> simulate_simple_segment self segment W S = (180, 0.01 * W, 200)
   \<and> (name segment = ''descent'' \<longrightarrow>
        simulate_segment atm self segment W S = Inr (segment, 480, 0.02 * W, 100))
   \<and> (name segment \<in> {''takeoff'', ''loiter'', ''landing''} \<longrightarrow>
        simulate_segment atm self segment W S = Inr (segment, 180, 0.01 * W, 200))"
  by (auto simp: simulate_segment_def simulate_descent_segment_def simulate_simple_segment_def)

theorem fixed_duration_segments_witness:
  "name (example_store 1) = ''descent''
   \<and> simulate_segment example_atmosisa example_aircraft (example_store 1) 10000 1000 =
       Inr (example_store 1, 480, 200, 100)
   \<and> name (example_store 0) \<in> {''takeoff'', ''loiter'', ''landing''}
   \<and> simulate_segment example_atmosisa example_aircraft (example_store 0) 10000 1000 =
       Inr (example_store 0, 180, 100, 200)"
proof -
  have d: "name (example_store 1) = ''descent''"
    by (simp add: example_store_def MissionSegment_init_def)
  have s: "name (example_store 0) \<in> {''takeoff'', ''loiter'', ''landing''}"
    by (simp add: example_store_def MissionSegment_init_def)
  from d s
    fixed_duration_segments[of example_aircraft "example_store 1" 10000 1000 example_atmosisa]
    fixed_duration_segments[of example_aircraft "example_store 0" 10000 1000 example_atmosisa]
  show ?thesis by simp
qed

subsection \<open>create\_mission\<close>

text \<open>
  C10. \<open>create_mission\<close> builds the six segments takeoff, climb, cruise, descent, loiter
  and landing in this order, and a segment whose name is not a key of the hybridization
  profile gets \<open>Hp = 0\<close>; with the empty profile every segment has \<open>Hp = 0\<close>. The
  aircraft enters only through its cruise altitude, so no design-level ratio can change
  this.
\<close>

theorem create_mission_absent_segments:
  "map name (create_mission self profile) =
     [''takeoff'', ''climb'', ''cruise'', ''descent'', ''loiter'', ''landing'']
   \<and> (\<forall>seg\<in>set (create_mission self profile). profile (name seg) = None \<longrightarrow> Hp seg = 0)
   \<and> (\<forall>seg\<in>set (create_mission self Map.empty). Hp seg = 0)"
  by (simp add: create_mission_def MissionSegment_init_def dict_get_def)

theorem create_mission_absent_segments_witness:
  "create_mission example_aircraft [''takeoff'' \<mapsto> 0.5] ! 2
     \<in> set (create_mission example_aircraft [''takeoff'' \<mapsto> 0.5])
   \<and> name (create_mission example_aircraft [''takeoff'' \<mapsto> 0.5] ! 2) = ''cruise''
   \<and> [''takeoff'' \<mapsto> 0.5 :: real] ''cruise'' = None
   \<and> Hp (create_mission example_aircraft [''takeoff'' \<mapsto> 0.5] ! 2) = 0
   \<and> create_mission example_aircraft Map.empty ! 0 \<in> set (create_mission example_aircraft Map.empty)
   \<and> Hp (create_mission example_aircraft Map.empty ! 0) = 0"
proof -
  let ?m = "create_mission example_aircraft [''takeoff'' \<mapsto> 0.5]"
  let ?e = "create_mission example_aircraft Map.empty"
  have len: "length ?m = 6" "length ?e = 6" by (simp_all add: create_mission_def)
  have m: "?m ! 2 \<in> set ?m" and e: "?e ! 0 \<in> set ?e"
    using len by simp_all
  have n: "name (?m ! 2) = ''cruise''"
    by (simp add: create_mission_def MissionSegment_init_def)
  have k: "[''takeoff'' \<mapsto> 0.5 :: real] ''cruise'' = None" by simp
  from create_mission_absent_segments[of example_aircraft "[''takeoff'' \<mapsto> 0.5]"] m n k
  have 1: "Hp (?m ! 2) = 0" by (metis)
  from create_mission_absent_segments[of example_aircraft "[''takeoff'' \<mapsto> 0.5]"] e
  have 2: "Hp (?e ! 0) = 0" by blast
  from m n k e 1 2 show ?thesis by blast
qed

subsection \<open>The cruise segment\<close>

text \<open>
  C6. In a cruise segment with current weight \<open>W\<close> and wing area \<open>S\<close>, let \<open>rho\<close> be
  the density that the atmosphere lookup gives at the segment's start altitude (converted
  from feet to metres, and the density to \<open>slug/ft\<^sup>3\<close>), and \<open>V\<close> the configured cruise
  speed in feet per second. The lift coefficient is \<open>W / (0.5 * rho * V\<^sup>2 * S)\<close>, the drag
  coefficient \<open>CD0 + K1 * CL\<^sup>2\<close>, the shaft power the drag times the speed over 550 times
  the propeller efficiency, converted from HP to kW by 0.7457, and the time the range (in
  feet) over the speed. The fuel is the fuel rate of the power split at the segment's
  \<open>Hp\<close> times the time, in pounds, and the battery energy the battery power times the
  time over 3600. The segment's distance is set to the range. This holds whenever no
  divisor is zero and the power split returns.
\<close>

theorem cruise_segment_physics:
  fixes atm :: atmosphere and self :: Aircraft and segment :: MissionSegment and W S :: real
  defines "rho \<equiv> fst (snd (snd (atm (altitude_start_ft segment * 0.3048)))) / 515.379"
    and "V \<equiv> cruise_speed_kts self * 1.688"
  defines "CL \<equiv> W / (0.5 * rho * V ^ 2 * S)"
  defines "CD \<equiv> CD0 self + K1 self * CL ^ 2"
  defines "P_shaft_kW \<equiv>
             (0.5 * rho * V ^ 2 * S * CD) * V / (550 * prop_efficiency (aircraft_tech self)) * 0.7457"
    and "T \<equiv> range_nm self * 6076.12 / V"
  assumes "rho \<noteq> 0" and "V \<noteq> 0" and "S \<noteq> 0"
    and "prop_efficiency (aircraft_tech self) \<noteq> 0"
    and "get_power_split (powertrain self) P_shaft_kW (Hp segment) = Inr split"
  shows "simulate_cruise_segment atm self segment W S =
           Inr (segment\<lparr>distance_nm := range_nm self\<rparr>,
                T,
                fuel_rate_kg_s split * T * 2.20462,
                battery_power_W split * T / 3600)"
  using assms(7-)
  unfolding simulate_cruise_segment_def rho_def V_def CL_def CD_def P_shaft_kW_def T_def Let_def
  by simp

theorem cruise_segment_physics_witness:
  "simulate_cruise_segment example_atmosisa example_aircraft example_cruise 9000 300 =
     Inr (example_cruise\<lparr>distance_nm := 350\<rparr>,
          5316605 / 844,
          44880150672681690380672181183 / 53538773071000000000000000,
          1492869995432315150872241 / 5371009714482720000)"
proof -
  have r: "fst (snd (snd (example_atmosisa (altitude_start_ft example_cruise * 0.3048))))
             / 515.379 \<noteq> 0"
    by (simp add: example_atmosisa_def)
  have v: "cruise_speed_kts example_aircraft * 1.688 \<noteq> 0"
    by (simp add: example_aircraft_def)
  have s: "(300 :: real) \<noteq> 0" by simp
  have p: "prop_efficiency (aircraft_tech example_aircraft) \<noteq> 0"
    by (simp add: example_aircraft_def example_tech_def)
  have ps: "get_power_split (powertrain example_aircraft) P (Hp example_cruise) =
              Inr \<lparr>split_P_GT_kW = P * (1 - 0.2), split_P_EM_kW = P * 0.2,
                   fuel_rate_kg_s = (P * (1 - 0.2) * 0.36) / 3600,
                   battery_power_W = (P * 0.2 * 1000) / 0.95\<rparr>" for P
    by (simp add: get_power_split_Parallel example_aircraft_def example_tech_def
        PowertrainBase_init_def example_cruise_def MissionSegment_init_def)
  note inst = cruise_segment_physics[where atm = example_atmosisa and self = example_aircraft
      and segment = example_cruise and W = 9000 and S = 300, OF r v s p ps]
  from inst show ?thesis
    by (simp add: example_atmosisa_def example_aircraft_def example_cruise_def
        example_tech_def MissionSegment_init_def power2_eq_square)
qed

subsection \<open>The climb segment\<close>

lemma climb_zero_divisor:
  "0.002377 * S * CLmax_clean self = 0 \<Longrightarrow>
   simulate_climb_segment self segment W S = Inl ZeroDivisionError"
  by (simp add: simulate_climb_segment_def)

lemma climb_default_time:
  assumes "0.002377 * S * CLmax_clean self \<noteq> 0"
    and "2 * (W * 0.99) / (0.002377 * S * CLmax_clean self) \<le> 0"
  shows "\<exists>f b. simulate_climb_segment self segment W S = Inr (Fin 600, f, b)"
proof (cases "2 * (W * 0.99) / (0.002377 * S * CLmax_clean self) < 0")
  case True
  with assms(1) show ?thesis
    by (simp add: simulate_climb_segment_def Let_def)
next
  case False
  with assms(2) have "2 * (W * 0.99) / (0.002377 * S * CLmax_clean self) = 0" by simp
  with assms(1) show ?thesis
    by (simp add: simulate_climb_segment_def Let_def)
qed

lemma climb_time:
  assumes "0.002377 * S * CLmax_clean self \<noteq> 0"
    and "0 < 2 * (W * 0.99) / (0.002377 * S * CLmax_clean self)"
  shows "\<exists>f b. simulate_climb_segment self segment W S =
           Inr (Fin ((altitude_end_ft segment - altitude_start_ft segment)
                     / (1.3 * sqrt (2 * (W * 0.99) / (0.002377 * S * CLmax_clean self)) * 0.05)),
                f, b)"
proof -
  from assms(2) have r: "0 < sqrt (2 * (W * 0.99) / (0.002377 * S * CLmax_clean self))"
    by simp
  from assms(2) have w: "W \<noteq> 0" by auto
  from assms r w show ?thesis
    by (simp add: simulate_climb_segment_def Let_def)
qed


lemma climb_results:
  fixes self :: Aircraft and segment :: MissionSegment and W S :: real
  defines "W_avg \<equiv> W * 0.99"
  defines "V_stall_fps \<equiv> sqrt (2 * W_avg / (0.002377 * S * CLmax_clean self))"
  defines "V_climb_fps \<equiv> 1.3 * V_stall_fps"
  defines "ROC_fps \<equiv> V_climb_fps * 0.05"
  defines "CL_climb \<equiv> W_avg / (0.5 * 0.002377 * V_climb_fps ^ 2 * S)"
  defines "CD_climb \<equiv> CD0 self + K1 self * CL_climb ^ 2"
  defines "T_lb \<equiv>
             W_avg * ((if CD_climb = 0 then 0 else 1 / (CL_climb / CD_climb)) + 0.05)"
  defines "P_shaft_kW \<equiv>
             T_lb * V_climb_fps / (550 * prop_efficiency (aircraft_tech self)) * 0.7457"
  defines "t \<equiv> (altitude_end_ft segment - altitude_start_ft segment) / ROC_fps"
  assumes d: "0.002377 * S * CLmax_clean self \<noteq> 0"
    and q: "0 < 2 * W_avg / (0.002377 * S * CLmax_clean self)"
    and eta: "prop_efficiency (aircraft_tech self) \<noteq> 0"
    and ps: "get_power_split (powertrain self) P_shaft_kW (Hp segment) = Inr split"
  shows "simulate_climb_segment self segment W S =
           Inr (Fin t, Fin (fuel_rate_kg_s split * t * 2.20462),
                Fin (battery_power_W split * t / 3600))"
proof -
  have vs: "0 < V_stall_fps" using q unfolding V_stall_fps_def by simp
  then have vc: "0 < V_climb_fps" unfolding V_climb_fps_def by simp
  then have roc: "0 < ROC_fps" unfolding ROC_fps_def by simp
  have s0: "S \<noteq> 0" using d by auto
  have w0: "W_avg \<noteq> 0" using q by auto
  have d2: "0.5 * 0.002377 * V_climb_fps ^ 2 * S \<noteq> 0" using vc s0 by simp
  have cl: "CL_climb \<noteq> 0" unfolding CL_climb_def using w0 d2 by simp
  have 1: "np_sqrt (Fin (2 * W_avg / (0.002377 * S * CLmax_clean self))) = Fin V_stall_fps"
    using q unfolding V_stall_fps_def by simp
  have 2: "np_mult (Fin 1.3) (Fin V_stall_fps) = Fin V_climb_fps"
    unfolding V_climb_fps_def by simp
  have 3: "np_mult (Fin V_climb_fps) (Fin 0.05) = Fin ROC_fps"
    unfolding ROC_fps_def by simp
  have 4: "np_div (Fin W_avg)
             (np_mult (np_mult (Fin (0.5 * 0.002377)) (np_square (Fin V_climb_fps))) (Fin S))
           = Fin CL_climb"
    unfolding CL_climb_def np_square_def using d2 by (simp add: power2_eq_square)
  have 5: "np_add (Fin (CD0 self)) (np_mult (Fin (K1 self)) (np_square (Fin CL_climb)))
           = Fin CD_climb"
    unfolding CD_climb_def np_square_def by (simp add: power2_eq_square)
  have 6: "np_mult (Fin W_avg)
             (np_add (np_div (Fin 1) (np_div (Fin CL_climb) (Fin CD_climb))) (Fin 0.05))
           = Fin T_lb"
    unfolding T_lb_def using cl by simp
  have 7: "np_mult (np_div (np_mult (Fin T_lb) (Fin V_climb_fps))
             (Fin (550 * prop_efficiency (aircraft_tech self)))) (Fin 0.7457) = Fin P_shaft_kW"
    unfolding P_shaft_kW_def using eta by simp
  note 8 = get_power_split_np_Fin[OF ps]
  have 9: "(if np_greater (Fin ROC_fps) (Fin 0)
            then np_div (Fin (altitude_end_ft segment - altitude_start_ft segment)) (Fin ROC_fps)
            else Fin 600) = Fin t"
    unfolding t_def using roc by simp
  have 10: "np_mult (np_mult (np_fuel_rate_kg_s (np_of_split split)) (Fin t)) (Fin 2.20462)
            = Fin (fuel_rate_kg_s split * t * 2.20462)"
    by (simp add: np_of_split_def)
  have 11: "np_div (np_mult (np_battery_power_W (np_of_split split)) (Fin t)) (Fin 3600)
            = Fin (battery_power_W split * t / 3600)"
    by (simp add: np_of_split_def)
  have "simulate_climb_segment self segment W S =
          Inr (Fin t,
               np_mult (np_mult (np_fuel_rate_kg_s (np_of_split split)) (Fin t)) (Fin 2.20462),
               np_div (np_mult (np_battery_power_W (np_of_split split)) (Fin t)) (Fin 3600))"
    unfolding simulate_climb_segment_def Let_def W_avg_def[symmetric]
    by (simp only: d if_False 1 2 3 4 5 6 7 8 9)
  then show ?thesis by (simp only: 10 11)
qed

lemma sqrt_10000: "sqrt 10000 = 100"
  by (rule real_sqrt_unique) simp_all

lemma sqrt_6400: "sqrt 6400 = 80"
  by (rule real_sqrt_unique) simp_all

lemmas np_example_simps =
  simulate_climb_segment_def example_aircraft_def example_climb_def MissionSegment_init_def
  example_tech_def PowertrainBase_init_def Let_def get_power_split_np_def
  Parallel_get_power_split_np_def np_square_def power2_eq_square

lemma example_climb_run:
  "simulate_climb_segment example_aircraft example_climb 23770 990 =
     Inr (Fin 1000, Fin (55968844185650176011 / 520000000000000000),
          Fin (24178162735161 / 395200000))"
  by (simp add: np_example_simps sqrt_10000)

lemma example_climb_run_zero_weight:
  "simulate_climb_segment example_aircraft example_climb 0 990 = Inr (Fin 600, NaN, NaN)"
  by (simp add: np_example_simps)

lemma example_climb_run_negative_weight:
  "simulate_climb_segment example_aircraft example_climb (- 100) 990 = Inr (Fin 600, NaN, NaN)"
  by (simp add: np_example_simps)

lemma example_climb_run_zero_drag:
  "simulate_climb_segment (example_aircraft\<lparr>CD0 := 0, K1 := 0\<rparr>) example_climb 23770 990 =
     Inr (Fin 1000, Fin (1600224715710621 / 40000000000000), Fin (691286271 / 30400))"
  by (simp add: np_example_simps sqrt_10000)

lemma example_climb_run_zero_efficiency:
  "simulate_climb_segment
     (example_aircraft\<lparr>powertrain :=
        PowertrainBase_init ParallelHybrid (example_tech\<lparr>EM_efficiency := 0\<rparr>)\<rparr>)
     example_climb 23770 990 =
     Inr (Fin 1000, Fin (55968844185650176011 / 520000000000000000), PInf)"
  by (simp add: np_example_simps sqrt_10000)

lemma example_spec_climb_time:
  "spec_climb_time_sec example_aircraft example_climb True 23770 990 = 1250"
  by (simp add: spec_climb_time_sec_def spec_climb_speed_fps_def get_lift_augmentation_factor_def
      augmentation_factor_def example_aircraft_def example_climb_def MissionSegment_init_def
      sqrt_6400)

text \<open>
  C7, as stated, fails: \<open>simulate_climb_segment\<close> computes the stall speed from
  \<open>CLmax_clean\<close> as it is, and a segment of \<^verbatim>\<open>mission.py\<close> has no blown-lift flag.
  For the sample aircraft (high lift enabled, augmentation factor 1.5625), a climb from
  35 ft to 6535 ft at 23770 lb and 990 square feet takes 1000 s in the code (stall speed
  100 ft/s), where the specification's climb with blown lift active takes 1250 s (stall
  speed 80 ft/s).
\<close>

theorem climb_ignores_blown_lift_counterexample:
  "get_lift_augmentation_factor example_aircraft True = 1.5625
   \<and> map_sum id fst (simulate_climb_segment example_aircraft example_climb 23770 990)
       = Inr (Fin 1000)
   \<and> spec_climb_time_sec example_aircraft example_climb True 23770 990 = 1250"
  using example_climb_run example_spec_climb_time
  by (simp add: get_lift_augmentation_factor_def augmentation_factor_def example_aircraft_def)

text \<open>
  C7, amended. In a climb segment with current weight \<open>W\<close> and wing area \<open>S\<close>, the
  average weight is \<open>0.99 * W\<close>; the climb speed is 1.3 times the stall speed computed
  from sea-level density, the average weight, the wing area and the un-augmented
  \<open>CLmax_clean\<close>, whether blown lift is active or not; the rate of climb is 5 percent of
  the climb speed; and the segment time is the altitude change over the rate of climb,
  with 600 seconds whenever the rate of climb is not positive.

  The statement follows the control flow of the function. When sea-level density times
  wing area times \<open>CLmax_clean\<close> is zero, the call raises. Otherwise it returns. When the
  quantity under the square root is zero or negative, the rate of climb is zero or
  \<^verbatim>\<open>nan\<close>, and the time is 600 seconds. When it is positive, the rate of climb is
  positive and the time is the altitude change over it; and when the propeller efficiency
  is not zero and the power split returns, the fuel and the battery energy are those of
  the split at the shaft power that the climb speed, the 5 percent gradient and the drag
  polar give (a drag coefficient of zero makes the lift-to-drag ratio infinite and its
  inverse zero), which ties the speed and the gradient to the results.
\<close>

theorem climb_segment_speed_and_time:
  fixes self :: Aircraft and segment :: MissionSegment and W S :: real
  defines "W_avg \<equiv> W * 0.99"
  defines "radicand \<equiv> 2 * W_avg / (0.002377 * S * CLmax_clean self)"
  defines "V_stall_fps \<equiv> sqrt radicand"
  defines "V_climb_fps \<equiv> 1.3 * V_stall_fps"
  defines "ROC_fps \<equiv> V_climb_fps * 0.05"
  defines "CL_climb \<equiv> W_avg / (0.5 * 0.002377 * V_climb_fps ^ 2 * S)"
  defines "CD_climb \<equiv> CD0 self + K1 self * CL_climb ^ 2"
  defines "T_lb \<equiv>
             W_avg * ((if CD_climb = 0 then 0 else 1 / (CL_climb / CD_climb)) + 0.05)"
  defines "P_shaft_kW \<equiv>
             T_lb * V_climb_fps / (550 * prop_efficiency (aircraft_tech self)) * 0.7457"
  defines "t \<equiv> (altitude_end_ft segment - altitude_start_ft segment) / ROC_fps"
  shows "(0.002377 * S * CLmax_clean self = 0 \<longrightarrow>
            simulate_climb_segment self segment W S = Inl ZeroDivisionError)
       \<and> (0.002377 * S * CLmax_clean self \<noteq> 0 \<and> radicand \<le> 0 \<longrightarrow>
            (\<exists>f b. simulate_climb_segment self segment W S = Inr (Fin 600, f, b)))
       \<and> (0.002377 * S * CLmax_clean self \<noteq> 0 \<and> 0 < radicand \<longrightarrow>
            0 < ROC_fps
          \<and> (\<exists>f b. simulate_climb_segment self segment W S = Inr (Fin t, f, b)))
       \<and> (\<forall>split.
            0.002377 * S * CLmax_clean self \<noteq> 0 \<and> 0 < radicand
          \<and> prop_efficiency (aircraft_tech self) \<noteq> 0
          \<and> get_power_split (powertrain self) P_shaft_kW (Hp segment) = Inr split \<longrightarrow>
            simulate_climb_segment self segment W S =
              Inr (Fin t, Fin (fuel_rate_kg_s split * t * 2.20462),
                   Fin (battery_power_W split * t / 3600)))"
proof -
  have 1: "0.002377 * S * CLmax_clean self = 0 \<longrightarrow>
            simulate_climb_segment self segment W S = Inl ZeroDivisionError"
    using climb_zero_divisor by blast
  have 2: "0.002377 * S * CLmax_clean self \<noteq> 0 \<and> radicand \<le> 0 \<longrightarrow>
            (\<exists>f b. simulate_climb_segment self segment W S = Inr (Fin 600, f, b))"
    unfolding radicand_def W_avg_def using climb_default_time by blast
  have 3: "0.002377 * S * CLmax_clean self \<noteq> 0 \<and> 0 < radicand \<longrightarrow>
            0 < ROC_fps
          \<and> (\<exists>f b. simulate_climb_segment self segment W S = Inr (Fin t, f, b))"
  proof (intro impI, elim conjE)
    assume d: "0.002377 * S * CLmax_clean self \<noteq> 0" and q: "0 < radicand"
    have "0 < ROC_fps"
      unfolding ROC_fps_def V_climb_fps_def V_stall_fps_def using q by simp
    moreover have "\<exists>f b. simulate_climb_segment self segment W S = Inr (Fin t, f, b)"
      unfolding t_def ROC_fps_def V_climb_fps_def V_stall_fps_def radicand_def W_avg_def
      using climb_time[OF d q[unfolded radicand_def W_avg_def]] .
    ultimately show "0 < ROC_fps
      \<and> (\<exists>f b. simulate_climb_segment self segment W S = Inr (Fin t, f, b))" by blast
  qed
  have 4: "\<forall>split.
            0.002377 * S * CLmax_clean self \<noteq> 0 \<and> 0 < radicand
          \<and> prop_efficiency (aircraft_tech self) \<noteq> 0
          \<and> get_power_split (powertrain self) P_shaft_kW (Hp segment) = Inr split \<longrightarrow>
            simulate_climb_segment self segment W S =
              Inr (Fin t, Fin (fuel_rate_kg_s split * t * 2.20462),
                   Fin (battery_power_W split * t / 3600))"
    unfolding t_def ROC_fps_def P_shaft_kW_def T_lb_def CD_climb_def CL_climb_def
      V_climb_fps_def V_stall_fps_def radicand_def W_avg_def
    using climb_results by blast
  from 1 2 3 4 show ?thesis by blast
qed

theorem climb_segment_speed_and_time_witness:
  "simulate_climb_segment example_aircraft example_climb 23770 0 = Inl ZeroDivisionError
   \<and> (\<exists>f b. simulate_climb_segment example_aircraft example_climb 0 990 = Inr (Fin 600, f, b))
   \<and> (\<exists>f b. simulate_climb_segment example_aircraft example_climb (- 100) 990
               = Inr (Fin 600, f, b))
   \<and> simulate_climb_segment example_aircraft example_climb 23770 990 =
       Inr (Fin 1000, Fin (55968844185650176011 / 520000000000000000),
            Fin (24178162735161 / 395200000))"
proof -
  have ps: "get_power_split (powertrain example_aircraft) P (Hp example_climb) =
              Inr \<lparr>split_P_GT_kW = P * (1 - 0.3), split_P_EM_kW = P * 0.3,
                   fuel_rate_kg_s = (P * (1 - 0.3) * 0.36) / 3600,
                   battery_power_W = (P * 0.3 * 1000) / 0.95\<rparr>" for P
    by (simp add: get_power_split_Parallel example_aircraft_def example_tech_def
        PowertrainBase_init_def example_climb_def MissionSegment_init_def)
  have a: "simulate_climb_segment example_aircraft example_climb 23770 0 = Inl ZeroDivisionError"
    using climb_segment_speed_and_time[where S = 0 and self = example_aircraft and W = 23770 and segment = example_climb]
    by simp
  have b: "\<exists>f b. simulate_climb_segment example_aircraft example_climb 0 990 = Inr (Fin 600, f, b)"
    using climb_segment_speed_and_time[where S = 990 and self = example_aircraft and W = 0 and segment = example_climb]
    by (simp add: example_aircraft_def)
  have c: "\<exists>f b. simulate_climb_segment example_aircraft example_climb (- 100) 990
                 = Inr (Fin 600, f, b)"
    using climb_segment_speed_and_time[where S = 990 and self = example_aircraft and W = "- 100" and segment = example_climb]
    by (simp add: example_aircraft_def)
  have d: "simulate_climb_segment example_aircraft example_climb 23770 990 =
       Inr (Fin 1000, Fin (55968844185650176011 / 520000000000000000),
            Fin (24178162735161 / 395200000))"
    using climb_segment_speed_and_time[where S = 990 and self = example_aircraft and W = 23770 and segment = example_climb] ps
    by (simp add: example_aircraft_def example_tech_def example_climb_def
        MissionSegment_init_def sqrt_10000 power2_eq_square)
  from a b c d show ?thesis by blast
qed

section \<open>Properties of the lift-augmentation model\<close>

text \<open>
  C9. The augmentation factor is 1 when blown lift is inactive or high lift is disabled,
  for every span fraction and every maximum factor; otherwise it is
  \<open>1 + (max_factor - 1) * span_fraction\<close>, which is 1 at span fraction 0 and
  \<open>max_factor\<close> at span fraction 1, and strictly increasing in the span fraction when
  \<open>max_factor > 1\<close>.
\<close>

theorem augmentation_factor_linear:
  "(\<not> active \<or> \<not> enabled \<longrightarrow> augmentation_factor enabled active span_fraction max_factor = 1)
   \<and> (active \<and> enabled \<longrightarrow>
        augmentation_factor enabled active span_fraction max_factor =
          1 + (max_factor - 1) * span_fraction)
   \<and> augmentation_factor True True 0 max_factor = 1
   \<and> augmentation_factor True True 1 max_factor = max_factor
   \<and> (1 < max_factor \<and> s1 < s2 \<longrightarrow>
        augmentation_factor True True s1 max_factor < augmentation_factor True True s2 max_factor)"
  by (simp add: augmentation_factor_def)

theorem augmentation_factor_linear_witness:
  "augmentation_factor True False 0.65 1.8 = 1
   \<and> augmentation_factor True True 0.65 1.8 = 1.52
   \<and> augmentation_factor True True 0 1.8 = 1
   \<and> augmentation_factor True True 1 1.8 = 1.8
   \<and> augmentation_factor True True 0.5 1.8 < augmentation_factor True True 0.65 1.8"
  using augmentation_factor_linear[of False True "0.65" "1.8" "0.5" "0.65"]
    augmentation_factor_linear[of True True "0.65" "1.8" "0.5" "0.65"]
  by simp

end
